theory Spec2Isabelle
  imports Complex_Main "HOL-Library.AList" "HOL-Library.List_Lexorder" "HOL-Library.Char_ord"
    "HOL-Library.Log_Nat"
begin

section \<open>JSON values and JavaScript numbers\<close>

text \<open>
  Request and response bodies are JSON values. A JSON number is a finite JavaScript number,
  kept here as an exact rational; an object lists its own properties in insertion order,
  each key once, and a property is read with \<open>map_of\<close> (an absent key is undefined, \<open>None\<close>).
  Strings are lists of 8-bit characters, one per UTF-16 code unit.
\<close>

datatype json =
    JNull
  | JBool bool
  | JNum rat
  | JStr string
  | JArr "json list"
  | JObj "(string \<times> json) list"

text \<open>A JavaScript number that may be \<open>NaN\<close>, as \<open>parseInt\<close> returns it.\<close>

datatype number = NaN | Num rat

fun digit :: "nat \<Rightarrow> char" where
  "digit n = char_of (of_char (CHR ''0'') + n mod 10 :: nat)"

fun digits :: "nat \<Rightarrow> string" where
  "digits n = (if n < 10 then [digit n] else digits (n div 10) @ [digit (n mod 10)])"

text \<open>
  \<open>parseFloat\<close> of the text of a decimal number: the double nearest to it, ties to the even
  mantissa. The double is kept as the rational it denotes; \<open>binaryExponent a\<close> is the \<open>e\<close> with
  \<open>2 ^ e \<le> a < 2 ^ (e + 1)\<close>, found from the bit lengths of numerator and denominator.
  Overflow and subnormal numbers are out of the range of an average of integers.
\<close>

definition pow2 :: "int \<Rightarrow> rat" where
  "pow2 e = (if 0 \<le> e then 2 ^ nat e else 1 / 2 ^ nat (- e))"

definition binaryExponent :: "rat \<Rightarrow> int" where
  "binaryExponent a =
     (case quotient_of a of
        (p, q) \<Rightarrow>
          if pow2 (int (floorlog 2 (nat p)) - int (floorlog 2 (nat q))) \<le> a
          then int (floorlog 2 (nat p)) - int (floorlog 2 (nat q))
          else int (floorlog 2 (nat p)) - int (floorlog 2 (nat q)) - 1)"

definition roundHalfEven :: "rat \<Rightarrow> int" where
  "roundHalfEven y =
     (if y - of_int \<lfloor>y\<rfloor> < 1 / 2 then \<lfloor>y\<rfloor>
      else if 1 / 2 < y - of_int \<lfloor>y\<rfloor> then \<lfloor>y\<rfloor> + 1
      else if even \<lfloor>y\<rfloor> then \<lfloor>y\<rfloor> else \<lfloor>y\<rfloor> + 1)"

definition parseFloat :: "rat \<Rightarrow> rat" where
  "parseFloat x =
     (if x = 0 then 0
      else sgn x * of_int (roundHalfEven (\<bar>x\<bar> * pow2 (52 - binaryExponent \<bar>x\<bar>)))
           * pow2 (binaryExponent \<bar>x\<bar> - 52))"

text \<open>
  \<open>Number.prototype.toFixed(2)\<close>: the integer \<open>n\<close> with \<open>n / 100\<close> nearest to the value, the
  larger one on a tie, written with two fractional digits; a negative value keeps its sign.
\<close>

definition toFixed2 :: "rat \<Rightarrow> string" where
  "toFixed2 x =
     (let n = nat \<lfloor>\<bar>x\<bar> * 100 + 1 / 2\<rfloor>
      in (if x < 0 then ''-'' else [])
         @ digits (n div 100) @ ''.'' @ [digit (n mod 100 div 10), digit (n mod 10)])"


section \<open>Validation schemas (shared/schema.ts)\<close>

text \<open>
  The libraries the handlers call are not part of the repository. What the code needs of
  them is a parameter: the syntax test behind \<open>z.string().email()\<close>, and \<open>bcrypt.hash\<close> and
  \<open>bcrypt.compare\<close> (the salt is the library's own; one hash function stands for a run).
\<close>

record env =
  validEmail :: "string \<Rightarrow> bool"
  bcryptHash :: "string \<Rightarrow> string"
  bcryptCompare :: "string \<Rightarrow> string \<Rightarrow> bool"

text \<open>
  A schema's \<open>parse\<close> either returns the parsed value or throws a \<open>ZodError\<close> carrying the
  issues' messages in order: \<open>Inl\<close> of that list. A property that is absent reaches its
  schema as undefined (\<open>None\<close>).
\<close>

type_synonym 'a parsed = "string list + 'a"

fun typeName :: "json \<Rightarrow> string" where
  "typeName JNull = ''null''"
| "typeName (JBool _) = ''boolean''"
| "typeName (JNum _) = ''number''"
| "typeName (JStr _) = ''string''"
| "typeName (JArr _) = ''array''"
| "typeName (JObj _) = ''object''"

definition invalid_type :: "string \<Rightarrow> json option \<Rightarrow> string" where
  "invalid_type expected v =
     (case v of None \<Rightarrow> ''Required''
      | Some j \<Rightarrow> ''Expected '' @ expected @ '', received '' @ typeName j)"

definition chk :: "bool \<Rightarrow> string \<Rightarrow> string list" where
  "chk ok msg = (if ok then [] else [msg])"

text \<open>\<open>z.string()\<close> followed by its checks; every failing check adds its issue.\<close>

fun z_string :: "(string \<Rightarrow> string list) \<Rightarrow> json option \<Rightarrow> string parsed" where
  "z_string checks (Some (JStr s)) = (if checks s = [] then Inr s else Inl (checks s))"
| "z_string checks v = Inl [invalid_type ''string'' v]"

fun z_number :: "(rat \<Rightarrow> string list) \<Rightarrow> json option \<Rightarrow> rat parsed" where
  "z_number checks (Some (JNum x)) = (if checks x = [] then Inr x else Inl (checks x))"
| "z_number checks v = Inl [invalid_type ''number'' v]"

fun z_optional :: "(json option \<Rightarrow> 'a parsed) \<Rightarrow> json option \<Rightarrow> 'a option parsed" where
  "z_optional p None = Inr None"
| "z_optional p (Some j) = (case p (Some j) of Inl e \<Rightarrow> Inl e | Inr a \<Rightarrow> Inr (Some a))"

fun z_default :: "'a \<Rightarrow> (json option \<Rightarrow> 'a parsed) \<Rightarrow> json option \<Rightarrow> 'a parsed" where
  "z_default d p None = Inr d"
| "z_default d p (Some j) = p (Some j)"

fun joinValues :: "string list \<Rightarrow> string" where
  "joinValues [] = []"
| "joinValues [v] = [CHR 0x27] @ v @ [CHR 0x27]"
| "joinValues (v # w # vs) = [CHR 0x27] @ v @ [CHR 0x27] @ '' | '' @ joinValues (w # vs)"

fun z_enum :: "string list \<Rightarrow> json option \<Rightarrow> string parsed" where
  "z_enum vs (Some (JStr s)) =
     (if s \<in> set vs then Inr s
      else Inl [''Invalid enum value. Expected '' @ joinValues vs
                @ '', received '' @ [CHR 0x27] @ s @ [CHR 0x27]])"
| "z_enum vs v = Inl [invalid_type (joinValues vs) v]"

text \<open>Two properties of an object: both are parsed, and the issues of both are kept in order.\<close>

fun both :: "'a parsed \<Rightarrow> 'b parsed \<Rightarrow> ('a \<times> 'b) parsed" where
  "both (Inr a) (Inr b) = Inr (a, b)"
| "both (Inl e) (Inr b) = Inl e"
| "both (Inr a) (Inl e) = Inl e"
| "both (Inl e) (Inl e') = Inl (e @ e')"

text \<open>
  The password pattern \<open>/^(?=.*[A-Z])(?=.*[!@#$%^&*(),.?":{}|<>])/\<close>: an upper-case letter and
  one of the listed symbols, each reached from the start over characters that \<open>.\<close> matches
  (no line terminator).
\<close>

definition lineTerminator :: "char \<Rightarrow> bool" where
  "lineTerminator c = (c = CHR 0x0A \<or> c = CHR 0x0D)"

definition symbols :: string where
  "symbols = ''!@#$%^&*(),.?'' @ [CHR 0x22] @ '':{}|<>''"

definition passwordPattern :: "string \<Rightarrow> bool" where
  "passwordPattern s =
     (list_ex (\<lambda>c. CHR ''A'' \<le> c \<and> c \<le> CHR ''Z'') (takeWhile (\<lambda>c. \<not> lineTerminator c) s)
      \<and> list_ex (\<lambda>c. c \<in> set symbols) (takeWhile (\<lambda>c. \<not> lineTerminator c) s))"

definition passwordChecks :: "string \<Rightarrow> string list" where
  "passwordChecks s =
     chk (8 \<le> length s) ''Password must be at least 8 characters''
     @ chk (length s \<le> 16) ''Password must not exceed 16 characters''
     @ chk (passwordPattern s)
         ''Password must contain at least one uppercase letter and one special character''"

definition emailChecks :: "env \<Rightarrow> string \<Rightarrow> string list" where
  "emailChecks E s = chk (validEmail E s) ''Invalid email format''"

text \<open>
  \<open>createInsertSchema(table, overrides).omit(...)\<close> is an object schema with one property
  per remaining column, in column order. A column named in the overrides has exactly the
  schema written there; an \<open>integer\<close> column that is not (\<open>ownerId\<close>, \<open>userId\<close>, \<open>storeId\<close>) is a
  required number. Properties the schema does not name are dropped.
\<close>

record insertUser =
  iu_name :: string
  iu_email :: string
  iu_password :: string
  iu_address :: "string option"
  iu_role :: string

definition insertUserSchema :: "env \<Rightarrow> json \<Rightarrow> insertUser parsed" where
  "insertUserSchema E body =
     (case body of
        JObj kvs \<Rightarrow>
          (case both
              (z_string (\<lambda>s. chk (20 \<le> length s) ''Name must be at least 20 characters''
                               @ chk (length s \<le> 60) ''Name must not exceed 60 characters'')
                 (map_of kvs ''name''))
              (both (z_string (emailChecks E) (map_of kvs ''email''))
              (both (z_string passwordChecks (map_of kvs ''password''))
              (both (z_optional
                       (z_string (\<lambda>s. chk (length s \<le> 400)
                                          ''Address must not exceed 400 characters''))
                       (map_of kvs ''address''))
                    (z_default ''user''
                       (z_enum [''admin'', ''user'', ''store_owner''])
                       (map_of kvs ''role'')))))
           of Inl e \<Rightarrow> Inl e
            | Inr (n, e, p, a, r) \<Rightarrow>
                Inr \<lparr>iu_name = n, iu_email = e, iu_password = p, iu_address = a,
                     iu_role = r\<rparr>)
      | _ \<Rightarrow> Inl [invalid_type ''object'' (Some body)])"

record insertStore =
  is_name :: string
  is_email :: string
  is_address :: string
  is_ownerId :: rat

definition insertStoreSchema :: "env \<Rightarrow> json \<Rightarrow> insertStore parsed" where
  "insertStoreSchema E body =
     (case body of
        JObj kvs \<Rightarrow>
          (case both
              (z_string (\<lambda>s. chk (1 \<le> length s) ''Store name is required''
                               @ chk (length s \<le> 255)
                                   ''Store name must not exceed 255 characters'')
                 (map_of kvs ''name''))
              (both (z_string (emailChecks E) (map_of kvs ''email''))
              (both (z_string (\<lambda>s. chk (1 \<le> length s) ''Address is required''
                                     @ chk (length s \<le> 400)
                                         ''Address must not exceed 400 characters'')
                       (map_of kvs ''address''))
                    (z_number (\<lambda>_. []) (map_of kvs ''ownerId''))))
           of Inl e \<Rightarrow> Inl e
            | Inr (n, e, a, ownr) \<Rightarrow>
                Inr \<lparr>is_name = n, is_email = e, is_address = a, is_ownerId = ownr\<rparr>)
      | _ \<Rightarrow> Inl [invalid_type ''object'' (Some body)])"

record insertRating =
  ir_userId :: rat
  ir_storeId :: rat
  ir_rating :: rat
  ir_review :: "string option"

definition insertRatingSchema :: "json \<Rightarrow> insertRating parsed" where
  "insertRatingSchema body =
     (case body of
        JObj kvs \<Rightarrow>
          (case both (z_number (\<lambda>_. []) (map_of kvs ''userId''))
              (both (z_number (\<lambda>_. []) (map_of kvs ''storeId''))
              (both (z_number (\<lambda>x. chk (1 \<le> x) ''Rating must be at least 1''
                                     @ chk (x \<le> 5) ''Rating must not exceed 5'')
                       (map_of kvs ''rating''))
                    (z_optional
                       (z_string (\<lambda>s. chk (length s \<le> 1000)
                                          ''Review must not exceed 1000 characters''))
                       (map_of kvs ''review''))))
           of Inl e \<Rightarrow> Inl e
            | Inr (u, s, r, v) \<Rightarrow>
                Inr \<lparr>ir_userId = u, ir_storeId = s, ir_rating = r, ir_review = v\<rparr>)
      | _ \<Rightarrow> Inl [invalid_type ''object'' (Some body)])"

definition loginSchema :: "env \<Rightarrow> json \<Rightarrow> (string \<times> string) parsed" where
  "loginSchema E body =
     (case body of
        JObj kvs \<Rightarrow>
          both (z_string (emailChecks E) (map_of kvs ''email''))
               (z_string (\<lambda>s. chk (1 \<le> length s) ''Password is required'')
                  (map_of kvs ''password''))
      | _ \<Rightarrow> Inl [invalid_type ''object'' (Some body)])"

definition changePasswordSchema :: "json \<Rightarrow> (string \<times> string) parsed" where
  "changePasswordSchema body =
     (case body of
        JObj kvs \<Rightarrow>
          both (z_string (\<lambda>s. chk (1 \<le> length s) ''Current password is required'')
                  (map_of kvs ''currentPassword''))
               (z_string passwordChecks (map_of kvs ''newPassword''))
      | _ \<Rightarrow> Inl [invalid_type ''object'' (Some body)])"


section \<open>Tables (shared/schema.ts)\<close>

text \<open>
  One record per table row, the columns in declaration order. Timestamps are ticks of the
  database clock. \<open>averageRating\<close> and \<open>totalRatings\<close> are nullable columns with defaults;
  the \<open>decimal(3,2)\<close> column holds the text written to it.
\<close>

record User =
  user_id :: int
  user_name :: string
  user_email :: string
  user_password :: string
  user_address :: "string option"
  user_role :: string
  user_createdAt :: nat
  user_updatedAt :: nat

record Store =
  store_id :: int
  store_name :: string
  store_email :: string
  store_address :: string
  store_ownerId :: int
  store_averageRating :: "string option"
  store_totalRatings :: "int option"
  store_createdAt :: nat
  store_updatedAt :: nat

record Rating =
  rating_id :: int
  rating_userId :: int
  rating_storeId :: int
  rating_rating :: int
  rating_review :: "string option"
  rating_createdAt :: nat
  rating_updatedAt :: nat

text \<open>
  The database: the three tables in insertion order and the last value of each \<open>serial\<close>
  sequence. A statement that fails leaves the database as it was.
\<close>

record db =
  users :: "User list"
  stores :: "Store list"
  ratings :: "Rating list"
  users_id_seq :: int
  stores_id_seq :: int
  ratings_id_seq :: int

datatype db_error =
    InvalidTextRepresentation
  | NumericValueOutOfRange
  | UniqueViolation
  | ForeignKeyViolation
  | StringDataRightTruncation

text \<open>
  A JavaScript number bound to an \<open>integer\<close> column or compared with one: the driver sends
  its text, and the database rejects what is not the text of a 32-bit integer.
\<close>

definition pg_integer :: "number \<Rightarrow> db_error + int" where
  "pg_integer v =
     (case v of
        NaN \<Rightarrow> Inl InvalidTextRepresentation
      | Num x \<Rightarrow>
          if x \<noteq> of_int \<lfloor>x\<rfloor> then Inl InvalidTextRepresentation
          else if \<lfloor>x\<rfloor> < - 2147483648 \<or> 2147483647 < \<lfloor>x\<rfloor> then Inl NumericValueOutOfRange
          else Inr \<lfloor>x\<rfloor>)"

definition varchar :: "nat \<Rightarrow> string \<Rightarrow> bool" where
  "varchar n s = (length s \<le> n)"

text \<open>
  SQL \<open>LIKE\<close> (case-sensitive): \<open>%\<close> matches any run of characters, \<open>_\<close> any one character, a
  backslash takes the next pattern character literally.
\<close>

fun like :: "string \<Rightarrow> string \<Rightarrow> bool" where
  "like s [] = (s = [])"
| "like s (p # ps) =
     (if p = CHR ''%'' then
        like s ps \<or> (case s of [] \<Rightarrow> False | _ # t \<Rightarrow> like t (p # ps))
      else if p = CHR ''_'' then
        (case s of [] \<Rightarrow> False | _ # t \<Rightarrow> like t ps)
      else if p = CHR 0x5C then
        (case ps of [] \<Rightarrow> False
         | q # qs \<Rightarrow> (case s of [] \<Rightarrow> False | c # t \<Rightarrow> c = q \<and> like t qs))
      else (case s of [] \<Rightarrow> False | c # t \<Rightarrow> c = p \<and> like t ps))"

section \<open>Storage (server/storage.ts)\<close>

text \<open>
  A select returns the matching rows; \<open>const [row] = ...\<close> takes the first one or undefined.
  \<open>orderBy(asc(name))\<close> is a stable sort by character codes.
\<close>

definition getUser :: "int \<Rightarrow> db \<Rightarrow> User option" where
  "getUser i d = find (\<lambda>u. user_id u = i) (users d)"

definition getUserByEmail :: "string \<Rightarrow> db \<Rightarrow> User option" where
  "getUserByEmail e d = find (\<lambda>u. user_email u = e) (users d)"

definition createUser :: "env \<Rightarrow> nat \<Rightarrow> insertUser \<Rightarrow> db \<Rightarrow> db_error + (User \<times> db)" where
  "createUser E now userData d =
     (let hashedPassword = bcryptHash E (iu_password userData);
          user = \<lparr>user_id = users_id_seq d + 1, user_name = iu_name userData,
                  user_email = iu_email userData, user_password = hashedPassword,
                  user_address = iu_address userData, user_role = iu_role userData,
                  user_createdAt = now, user_updatedAt = now\<rparr>
      in if \<not> (varchar 60 (user_name user) \<and> varchar 255 (user_email user)
                \<and> varchar 255 (user_password user) \<and> varchar 20 (user_role user))
         then Inl StringDataRightTruncation
         else if list_ex (\<lambda>u. user_id u = user_id user \<or> user_email u = user_email user) (users d)
         then Inl UniqueViolation
         else Inr (user, d\<lparr>users := users d @ [user], users_id_seq := user_id user\<rparr>))"

definition updateUserPassword :: "int \<Rightarrow> string \<Rightarrow> db \<Rightarrow> db_error + db" where
  "updateUserPassword i hashedPassword d =
     (if list_ex (\<lambda>u. user_id u = i) (users d) \<and> \<not> varchar 255 hashedPassword
      then Inl StringDataRightTruncation
      else Inr (d\<lparr>users := map (\<lambda>u. if user_id u = i
                                        then u\<lparr>user_password := hashedPassword\<rparr> else u)
                                (users d)\<rparr>))"

definition getAllUsers :: "db \<Rightarrow> User list" where
  "getAllUsers d = sort_key user_name (users d)"

definition createStore :: "nat \<Rightarrow> insertStore \<Rightarrow> db \<Rightarrow> db_error + (Store \<times> db)" where
  "createStore now storeData d =
     (case pg_integer (Num (is_ownerId storeData)) of
        Inl e \<Rightarrow> Inl e
      | Inr ownr \<Rightarrow>
          (let store = \<lparr>store_id = stores_id_seq d + 1, store_name = is_name storeData,
                        store_email = is_email storeData,
                        store_address = is_address storeData, store_ownerId = ownr,
                        store_averageRating = Some ''0.00'', store_totalRatings = Some 0,
                        store_createdAt = now, store_updatedAt = now\<rparr>
           in if \<not> (varchar 255 (store_name store) \<and> varchar 255 (store_email store))
              then Inl StringDataRightTruncation
              else if list_ex (\<lambda>s. store_id s = store_id store
                                     \<or> store_email s = store_email store) (stores d)
              then Inl UniqueViolation
              else if \<not> list_ex (\<lambda>u. user_id u = ownr) (users d)
              then Inl ForeignKeyViolation
              else Inr (store, d\<lparr>stores := stores d @ [store],
                                  stores_id_seq := store_id store\<rparr>)))"

definition getAllStores :: "db \<Rightarrow> Store list" where
  "getAllStores d = sort_key store_name (stores d)"

definition getStoreById :: "int \<Rightarrow> db \<Rightarrow> Store option" where
  "getStoreById i d = find (\<lambda>s. store_id s = i) (stores d)"

definition getStoresByOwner :: "number \<Rightarrow> db \<Rightarrow> db_error + Store list" where
  "getStoresByOwner ownerId d =
     (case pg_integer ownerId of
        Inl e \<Rightarrow> Inl e
      | Inr ownr \<Rightarrow> Inr (filter (\<lambda>s. store_ownerId s = ownr) (stores d)))"

definition searchStores :: "string \<Rightarrow> db \<Rightarrow> Store list" where
  "searchStores query d =
     sort_key store_name
       (filter (\<lambda>s. like (store_name s) (''%'' @ query @ ''%'')
                    \<or> like (store_address s) (''%'' @ query @ ''%''))
          (stores d))"

text \<open>
  \<open>updateStoreRating\<close>: \<open>avg\<close> is null over no rows, and then the written text is \<open>"0.00"\<close>;
  otherwise it is the text of the mean (taken as exact: the database writes it with sixteen
  or more digits), which \<open>parseFloat\<close> reads and \<open>toFixed(2)\<close> writes. \<open>count\<close> is a number,
  and \<open>count || 0\<close> is that number.
\<close>

definition avgRating :: "Rating list \<Rightarrow> rat option" where
  "avgRating rs =
     (if rs = [] then None
      else Some (of_int (sum_list (map rating_rating rs)) / of_nat (length rs)))"

definition updateStoreRating :: "int \<Rightarrow> db \<Rightarrow> db" where
  "updateStoreRating storeId d =
     d\<lparr>stores :=
         map (\<lambda>s. if store_id s = storeId
                   then s\<lparr>store_averageRating :=
                            Some (case avgRating (filter (\<lambda>r. rating_storeId r = storeId)
                                                    (ratings d))
                                  of Some a \<Rightarrow> toFixed2 (parseFloat a) | None \<Rightarrow> ''0.00''),
                          store_totalRatings :=
                            Some (int (length (filter (\<lambda>r. rating_storeId r = storeId)
                                                 (ratings d))))\<rparr>
                   else s)
           (stores d)\<rparr>"

definition createRating :: "nat \<Rightarrow> insertRating \<Rightarrow> db \<Rightarrow> db_error + (Rating \<times> db)" where
  "createRating now ratingData d =
     (case pg_integer (Num (ir_userId ratingData)) of
        Inl e \<Rightarrow> Inl e
      | Inr u \<Rightarrow>
     (case pg_integer (Num (ir_storeId ratingData)) of
        Inl e \<Rightarrow> Inl e
      | Inr s \<Rightarrow>
     (case pg_integer (Num (ir_rating ratingData)) of
        Inl e \<Rightarrow> Inl e
      | Inr r \<Rightarrow>
          (let rating = \<lparr>rating_id = ratings_id_seq d + 1, rating_userId = u,
                         rating_storeId = s, rating_rating = r,
                         rating_review = ir_review ratingData,
                         rating_createdAt = now, rating_updatedAt = now\<rparr>
           in if list_ex (\<lambda>x. rating_id x = rating_id rating
                               \<or> (rating_userId x = u \<and> rating_storeId x = s)) (ratings d)
              then Inl UniqueViolation
              else if \<not> list_ex (\<lambda>x. user_id x = u) (users d)
                      \<or> \<not> list_ex (\<lambda>x. store_id x = s) (stores d)
              then Inl ForeignKeyViolation
              else Inr (rating,
                        updateStoreRating s
                          (d\<lparr>ratings := ratings d @ [rating],
                             ratings_id_seq := rating_id rating\<rparr>))))))"


text \<open>
  \<open>updateRating\<close>: \<open>set(ratingData)\<close> writes the properties that are present, so an absent
  \<open>review\<close> leaves the stored one; \<open>returning()\<close> gives the updated rows, and the first one
  (or undefined) is the result.
\<close>

definition updateRating ::
  "int \<Rightarrow> number \<Rightarrow> insertRating \<Rightarrow> db \<Rightarrow> db_error + (Rating option \<times> db)" where
  "updateRating userId storeId ratingData d =
     (case pg_integer storeId of
        Inl e \<Rightarrow> Inl e
      | Inr sid \<Rightarrow>
     (case pg_integer (Num (ir_userId ratingData)) of
        Inl e \<Rightarrow> Inl e
      | Inr u \<Rightarrow>
     (case pg_integer (Num (ir_storeId ratingData)) of
        Inl e \<Rightarrow> Inl e
      | Inr s \<Rightarrow>
     (case pg_integer (Num (ir_rating ratingData)) of
        Inl e \<Rightarrow> Inl e
      | Inr r \<Rightarrow>
          (let hit = (\<lambda>x. rating_userId x = userId \<and> rating_storeId x = sid);
               upd = (\<lambda>x. x\<lparr>rating_userId := u, rating_storeId := s, rating_rating := r,
                              rating_review := (case ir_review ratingData of
                                                  None \<Rightarrow> rating_review x
                                                | Some v \<Rightarrow> Some v)\<rparr>)
           in if list_ex hit (ratings d) \<and> (u \<noteq> userId \<or> s \<noteq> sid)
                 \<and> list_ex (\<lambda>x. rating_userId x = u \<and> rating_storeId x = s) (ratings d)
              then Inl UniqueViolation
              else if list_ex hit (ratings d)
                      \<and> (\<not> list_ex (\<lambda>x. user_id x = u) (users d)
                          \<or> \<not> list_ex (\<lambda>x. store_id x = s) (stores d))
              then Inl ForeignKeyViolation
              else Inr (map_option upd (find hit (ratings d)),
                        updateStoreRating sid
                          (d\<lparr>ratings := map (\<lambda>x. if hit x then upd x else x)
                                            (ratings d)\<rparr>)))))))"

definition getRatingByUserAndStore :: "int \<Rightarrow> int \<Rightarrow> db \<Rightarrow> Rating option" where
  "getRatingByUserAndStore userId storeId d =
     find (\<lambda>r. rating_userId r = userId \<and> rating_storeId r = storeId) (ratings d)"

definition getRatingsByStore :: "number \<Rightarrow> db \<Rightarrow> db_error + Rating list" where
  "getRatingsByStore storeId d =
     (case pg_integer storeId of
        Inl e \<Rightarrow> Inl e
      | Inr sid \<Rightarrow>
          Inr (sort_key (\<lambda>r. - int (rating_createdAt r))
                 (filter (\<lambda>r. rating_storeId r = sid) (ratings d))))"

definition getRatingsByUser :: "int \<Rightarrow> db \<Rightarrow> Rating list" where
  "getRatingsByUser userId d =
     sort_key (\<lambda>r. - int (rating_createdAt r))
       (filter (\<lambda>r. rating_userId r = userId) (ratings d))"

definition getStatistics :: "db \<Rightarrow> nat \<times> nat \<times> nat" where
  "getStatistics d = (length (users d), length (stores d), length (ratings d))"

section \<open>Sessions, responses and middleware (server/routes.ts)\<close>

record snapshot =
  snap_id :: int
  snap_name :: string
  snap_email :: string
  snap_role :: string

record session =
  userId :: "int option"
  user :: "snapshot option"

record response =
  status :: nat
  body :: json

type_synonym state = "session \<times> db"

definition message :: "nat \<Rightarrow> string \<Rightarrow> response" where
  "message code m = \<lparr>status = code, body = JObj [(''message'', JStr m)]\<rparr>"

definition ok :: "json \<Rightarrow> response" where
  "ok j = \<lparr>status = 200, body = j\<rparr>"

text \<open>\<open>error.errors[0].message\<close> of a \<open>ZodError\<close>.\<close>

definition firstMessage :: "string list \<Rightarrow> string" where
  "firstMessage e = (case e of [] \<Rightarrow> [] | m # _ \<Rightarrow> m)"

text \<open>\<open>!req.session.userId\<close> holds for an absent id and for \<open>0\<close>.\<close>

definition requireAuth ::
  "(int \<Rightarrow> state \<Rightarrow> response \<times> state) \<Rightarrow> state \<Rightarrow> response \<times> state" where
  "requireAuth next st =
     (case userId (fst st) of
        None \<Rightarrow> (message 401 ''Unauthorized'', st)
      | Some uid \<Rightarrow> if uid = 0 then (message 401 ''Unauthorized'', st) else next uid st)"

definition requireAdmin ::
  "(state \<Rightarrow> response \<times> state) \<Rightarrow> state \<Rightarrow> response \<times> state" where
  "requireAdmin next st =
     (case user (fst st) of
        None \<Rightarrow> (message 403 ''Forbidden'', st)
      | Some u \<Rightarrow> if snap_role u \<noteq> ''admin'' then (message 403 ''Forbidden'', st)
                  else next st)"

subsection \<open>Rows as JSON\<close>

definition timestamp :: "nat \<Rightarrow> json" where
  "timestamp t = JStr (digits t)"

definition nullable :: "('a \<Rightarrow> json) \<Rightarrow> 'a option \<Rightarrow> json" where
  "nullable f v = (case v of None \<Rightarrow> JNull | Some a \<Rightarrow> f a)"

definition user_props :: "User \<Rightarrow> (string \<times> json) list" where
  "user_props u =
     [(''id'', JNum (of_int (user_id u))), (''name'', JStr (user_name u)),
      (''email'', JStr (user_email u)), (''password'', JStr (user_password u)),
      (''address'', nullable JStr (user_address u)), (''role'', JStr (user_role u)),
      (''createdAt'', timestamp (user_createdAt u)),
      (''updatedAt'', timestamp (user_updatedAt u))]"

definition store_props :: "Store \<Rightarrow> (string \<times> json) list" where
  "store_props s =
     [(''id'', JNum (of_int (store_id s))), (''name'', JStr (store_name s)),
      (''email'', JStr (store_email s)), (''address'', JStr (store_address s)),
      (''ownerId'', JNum (of_int (store_ownerId s))),
      (''averageRating'', nullable JStr (store_averageRating s)),
      (''totalRatings'', nullable (\<lambda>n. JNum (of_int n)) (store_totalRatings s)),
      (''createdAt'', timestamp (store_createdAt s)),
      (''updatedAt'', timestamp (store_updatedAt s))]"

definition rating_props :: "Rating \<Rightarrow> (string \<times> json) list" where
  "rating_props r =
     [(''id'', JNum (of_int (rating_id r))), (''userId'', JNum (of_int (rating_userId r))),
      (''storeId'', JNum (of_int (rating_storeId r))),
      (''rating'', JNum (of_int (rating_rating r))),
      (''review'', nullable JStr (rating_review r)),
      (''createdAt'', timestamp (rating_createdAt r)),
      (''updatedAt'', timestamp (rating_updatedAt r))]"

text \<open>\<open>const { password, ...userWithoutPassword } = user\<close>: every property but one.\<close>

definition omit :: "string \<Rightarrow> (string \<times> json) list \<Rightarrow> (string \<times> json) list" where
  "omit k props = filter (\<lambda>p. fst p \<noteq> k) props"

definition userWithoutPassword :: "User \<Rightarrow> json" where
  "userWithoutPassword u = JObj (omit ''password'' (user_props u))"

text \<open>\<open>{ ...req.body, userId: ... }\<close>: the own properties of the body, then the one set.\<close>

fun spread :: "json \<Rightarrow> (string \<times> json) list" where
  "spread (JObj kvs) = kvs"
| "spread (JArr xs) = zip (map digits [0..<length xs]) xs"
| "spread (JStr s) = zip (map digits [0..<length s]) (map (\<lambda>c. JStr [c]) s)"
| "spread _ = []"

text \<open>
  \<open>parseInt\<close> of a route parameter: leading white space, a sign, then decimal digits, or
  hexadecimal ones after \<open>0x\<close>; \<open>NaN\<close> when no digit follows.
\<close>

definition whiteSpace :: "char \<Rightarrow> bool" where
  "whiteSpace c = (c \<in> set [CHR 0x09, CHR 0x0A, CHR 0x0B, CHR 0x0C, CHR 0x0D, CHR 0x20, CHR 0xA0])"

definition digitValue :: "char \<Rightarrow> nat" where
  "digitValue c =
     (if CHR ''0'' \<le> c \<and> c \<le> CHR ''9'' then of_char c - of_char (CHR ''0'')
      else if CHR ''a'' \<le> c \<and> c \<le> CHR ''z'' then of_char c - of_char (CHR ''a'') + 10
      else if CHR ''A'' \<le> c \<and> c \<le> CHR ''Z'' then of_char c - of_char (CHR ''A'') + 10
      else 36)"

definition parseDigits :: "nat \<Rightarrow> string \<Rightarrow> number" where
  "parseDigits radix s =
     (if takeWhile (\<lambda>c. digitValue c < radix) s = [] then NaN
      else Num (of_nat (foldl (\<lambda>a c. a * radix + digitValue c) 0
                          (takeWhile (\<lambda>c. digitValue c < radix) s))))"

fun parseUnsigned :: "string \<Rightarrow> number" where
  "parseUnsigned (z # x # s) =
     (if z = CHR ''0'' \<and> (x = CHR ''x'' \<or> x = CHR ''X'') then parseDigits 16 s
      else parseDigits 10 (z # x # s))"
| "parseUnsigned s = parseDigits 10 s"

fun negate :: "number \<Rightarrow> number" where
  "negate NaN = NaN"
| "negate (Num x) = Num (- x)"

definition parseInt :: "string \<Rightarrow> number" where
  "parseInt str =
     (case dropWhile whiteSpace str of
        [] \<Rightarrow> NaN
      | c # s \<Rightarrow> if c = CHR ''-'' then negate (parseUnsigned s)
                 else if c = CHR ''+'' then parseUnsigned s
                 else parseUnsigned (c # s))"


section \<open>Route handlers (server/routes.ts)\<close>

text \<open>
  A handler takes the session and the database and returns the response with the session
  and the database it leaves. A \<open>ZodError\<close> is answered by 400 with the first issue's
  message; any other exception (here: a rejected statement) by 500.
\<close>

definition post_auth_register :: "env \<Rightarrow> nat \<Rightarrow> json \<Rightarrow> state \<Rightarrow> response \<times> state" where
  "post_auth_register E now reqBody st =
     (case insertUserSchema E reqBody of
        Inl e \<Rightarrow> (message 400 (firstMessage e), st)
      | Inr userData \<Rightarrow>
          (case getUserByEmail (iu_email userData) (snd st) of
             Some existingUser \<Rightarrow> (message 400 ''User already exists'', st)
           | None \<Rightarrow>
               (case createUser E now userData (snd st) of
                  Inl err \<Rightarrow> (message 500 ''Registration failed'', st)
                | Inr (u, d') \<Rightarrow>
                    (ok (JObj [(''user'', userWithoutPassword u)]), (fst st, d')))))"

definition post_auth_login :: "env \<Rightarrow> json \<Rightarrow> state \<Rightarrow> response \<times> state" where
  "post_auth_login E reqBody st =
     (case loginSchema E reqBody of
        Inl e \<Rightarrow> (message 400 (firstMessage e), st)
      | Inr (email, password) \<Rightarrow>
          (case getUserByEmail email (snd st) of
             None \<Rightarrow> (message 401 ''Invalid credentials'', st)
           | Some u \<Rightarrow>
               if \<not> bcryptCompare E password (user_password u)
               then (message 401 ''Invalid credentials'', st)
               else (ok (JObj [(''user'', userWithoutPassword u)]),
                     ((fst st)\<lparr>userId := Some (user_id u),
                               user := Some \<lparr>snap_id = user_id u, snap_name = user_name u,
                                            snap_email = user_email u,
                                            snap_role = user_role u\<rparr>\<rparr>,
                      snd st))))"

text \<open>\<open>req.session.destroy\<close>: the session store either fails or drops the session.\<close>

definition post_auth_logout :: "bool \<Rightarrow> state \<Rightarrow> response \<times> state" where
  "post_auth_logout err st =
     (if err then (message 500 ''Logout failed'', st)
      else (message 200 ''Logged out successfully'',
            (\<lparr>userId = None, user = None\<rparr>, snd st)))"

definition get_auth_me :: "state \<Rightarrow> response \<times> state" where
  "get_auth_me =
     requireAuth (\<lambda>uid st.
       case getUser uid (snd st) of
         None \<Rightarrow> (message 404 ''User not found'', st)
       | Some u \<Rightarrow> (ok (JObj [(''user'', userWithoutPassword u)]), st))"

definition post_auth_change_password :: "env \<Rightarrow> json \<Rightarrow> state \<Rightarrow> response \<times> state" where
  "post_auth_change_password E reqBody =
     requireAuth (\<lambda>uid st.
       case changePasswordSchema reqBody of
         Inl e \<Rightarrow> (message 400 (firstMessage e), st)
       | Inr (currentPassword, newPassword) \<Rightarrow>
           (case getUser uid (snd st) of
              None \<Rightarrow> (message 404 ''User not found'', st)
            | Some u \<Rightarrow>
                if \<not> bcryptCompare E currentPassword (user_password u)
                then (message 401 ''Current password is incorrect'', st)
                else (case updateUserPassword (user_id u) (bcryptHash E newPassword) (snd st) of
                        Inl err \<Rightarrow> (message 500 ''Failed to change password'', st)
                      | Inr d' \<Rightarrow>
                          (message 200 ''Password updated successfully'', (fst st, d')))))"

text \<open>
  The query string of \<open>GET /api/stores\<close>. \<open>if (search)\<close> fails for an absent and for an empty
  parameter. A caller whose snapshot role is not admin gets every store with its own
  rating, \<open>userRating?.rating || null\<close>.
\<close>

record query =
  search :: "string option"
  sortBy :: "string option"
  sortOrder :: "string option"

definition userRating :: "Rating option \<Rightarrow> json" where
  "userRating r =
     (case r of
        None \<Rightarrow> JNull
      | Some x \<Rightarrow> if rating_rating x = 0 then JNull else JNum (of_int (rating_rating x)))"

definition isAdmin :: "session \<Rightarrow> bool" where
  "isAdmin s = (case user s of None \<Rightarrow> False | Some u \<Rightarrow> snap_role u = ''admin'')"

definition listedStores :: "query \<Rightarrow> db \<Rightarrow> Store list" where
  "listedStores q d =
     (case search q of
        None \<Rightarrow> getAllStores d
      | Some term \<Rightarrow> if term = [] then getAllStores d else searchStores term d)"

definition get_stores :: "query \<Rightarrow> state \<Rightarrow> response \<times> state" where
  "get_stores q =
     requireAuth (\<lambda>uid st.
       (ok (JArr (map (\<lambda>store.
                         if \<not> isAdmin (fst st)
                         then JObj (store_props store
                                    @ [(''userRating'',
                                        userRating (getRatingByUserAndStore uid (store_id store)
                                                      (snd st)))])
                         else JObj (store_props store))
                    (listedStores q (snd st)))),
        st))"

definition post_stores :: "env \<Rightarrow> nat \<Rightarrow> json \<Rightarrow> state \<Rightarrow> response \<times> state" where
  "post_stores E now reqBody =
     requireAdmin (\<lambda>st.
       case insertStoreSchema E reqBody of
         Inl e \<Rightarrow> (message 400 (firstMessage e), st)
       | Inr storeData \<Rightarrow>
           (case createStore now storeData (snd st) of
              Inl err \<Rightarrow> (message 500 ''Failed to create store'', st)
            | Inr (store, d') \<Rightarrow> (ok (JObj (store_props store)), (fst st, d'))))"

definition get_stores_owner :: "string \<Rightarrow> state \<Rightarrow> response \<times> state" where
  "get_stores_owner ownerId =
     requireAuth (\<lambda>uid st.
       case getStoresByOwner (parseInt ownerId) (snd st) of
         Inl err \<Rightarrow> (message 500 ''Failed to fetch stores'', st)
       | Inr found \<Rightarrow> (ok (JArr (map (\<lambda>store. JObj (store_props store)) found)), st))"

text \<open>
  \<open>POST /api/ratings\<close>. The lookup binds \<open>ratingData.storeId\<close> as an integer parameter. The
  result of \<open>updateRating\<close> is a row whenever the lookup found one.
\<close>

definition post_ratings :: "nat \<Rightarrow> json \<Rightarrow> state \<Rightarrow> response \<times> state" where
  "post_ratings now reqBody =
     requireAuth (\<lambda>uid st.
       case insertRatingSchema
              (JObj (AList.update ''userId'' (JNum (of_int uid)) (spread reqBody))) of
         Inl e \<Rightarrow> (message 400 (firstMessage e), st)
       | Inr ratingData \<Rightarrow>
           (case pg_integer (Num (ir_storeId ratingData)) of
              Inl err \<Rightarrow> (message 500 ''Failed to submit rating'', st)
            | Inr sid \<Rightarrow>
                (case getRatingByUserAndStore uid sid (snd st) of
                   Some existingRating \<Rightarrow>
                     (case updateRating uid (Num (ir_storeId ratingData)) ratingData (snd st) of
                        Inl err \<Rightarrow> (message 500 ''Failed to submit rating'', st)
                      | Inr (r, d') \<Rightarrow>
                          (ok (nullable (\<lambda>x. JObj (rating_props x)) r), (fst st, d')))
                 | None \<Rightarrow>
                     (case createRating now ratingData (snd st) of
                        Inl err \<Rightarrow> (message 500 ''Failed to submit rating'', st)
                      | Inr (r, d') \<Rightarrow> (ok (JObj (rating_props r)), (fst st, d'))))))"

definition get_ratings_store :: "string \<Rightarrow> state \<Rightarrow> response \<times> state" where
  "get_ratings_store storeId =
     requireAuth (\<lambda>uid st.
       case getRatingsByStore (parseInt storeId) (snd st) of
         Inl err \<Rightarrow> (message 500 ''Failed to fetch ratings'', st)
       | Inr found \<Rightarrow>
           (ok (JArr (map (\<lambda>r. JObj (rating_props r
                                      @ [(''user'',
                                          nullable (\<lambda>u. JObj [(''name'', JStr (user_name u)),
                                                               (''email'', JStr (user_email u))])
                                            (getUser (rating_userId r) (snd st)))]))
                        found)),
            st))"

definition get_users :: "state \<Rightarrow> response \<times> state" where
  "get_users =
     requireAdmin (\<lambda>st. (ok (JArr (map userWithoutPassword (getAllUsers (snd st)))), st))"

definition post_users :: "env \<Rightarrow> nat \<Rightarrow> json \<Rightarrow> state \<Rightarrow> response \<times> state" where
  "post_users E now reqBody =
     requireAdmin (\<lambda>st.
       case insertUserSchema E reqBody of
         Inl e \<Rightarrow> (message 400 (firstMessage e), st)
       | Inr userData \<Rightarrow>
           (case getUserByEmail (iu_email userData) (snd st) of
              Some existingUser \<Rightarrow> (message 400 ''User already exists'', st)
            | None \<Rightarrow>
                (case createUser E now userData (snd st) of
                   Inl err \<Rightarrow> (message 500 ''Failed to create user'', st)
                 | Inr (u, d') \<Rightarrow> (ok (userWithoutPassword u), (fst st, d')))))"

definition get_statistics :: "state \<Rightarrow> response \<times> state" where
  "get_statistics =
     requireAdmin (\<lambda>st.
       case getStatistics (snd st) of
         (totalUsers, totalStores, totalRatings) \<Rightarrow>
           (ok (JObj [(''totalUsers'', JNum (of_nat totalUsers)),
                      (''totalStores'', JNum (of_nat totalStores)),
                      (''totalRatings'', JNum (of_nat totalRatings))]),
            st))"

text \<open>The routes of \<open>registerRoutes\<close>, each with what the request carries.\<close>

datatype request =
    PostAuthRegister json
  | PostAuthLogin json
  | PostAuthLogout bool
  | GetAuthMe
  | PostAuthChangePassword json
  | GetStores query
  | PostStores json
  | GetStoresOwner string
  | PostRatings json
  | GetRatingsStore string
  | GetUsers
  | PostUsers json
  | GetStatistics

fun handle :: "env \<Rightarrow> nat \<Rightarrow> request \<Rightarrow> state \<Rightarrow> response \<times> state" where
  "handle E now (PostAuthRegister b) = post_auth_register E now b"
| "handle E now (PostAuthLogin b) = post_auth_login E b"
| "handle E now (PostAuthLogout err) = post_auth_logout err"
| "handle E now GetAuthMe = get_auth_me"
| "handle E now (PostAuthChangePassword b) = post_auth_change_password E b"
| "handle E now (GetStores q) = get_stores q"
| "handle E now (PostStores b) = post_stores E now b"
| "handle E now (GetStoresOwner p) = get_stores_owner p"
| "handle E now (PostRatings b) = post_ratings now b"
| "handle E now (GetRatingsStore p) = get_ratings_store p"
| "handle E now GetUsers = get_users"
| "handle E now (PostUsers b) = post_users E now b"
| "handle E now GetStatistics = get_statistics"


section \<open>Notions used to state the properties\<close>

text \<open>
  The aggregate as the specification words it: the mean of the rating values of a store,
  as a floating-point number written with two decimals (\<open>"0.00"\<close> over no ratings), and their
  count. A database is
  materialized when every store row carries the aggregate of its ratings.
\<close>

definition storeRatingValues :: "db \<Rightarrow> int \<Rightarrow> int list" where
  "storeRatingValues d sid =
     map rating_rating (filter (\<lambda>r. rating_storeId r = sid) (ratings d))"

definition mean :: "int list \<Rightarrow> rat" where
  "mean vs = of_int (sum_list vs) / of_nat (length vs)"

definition materialized_row :: "db \<Rightarrow> Store \<Rightarrow> bool" where
  "materialized_row d st =
     (store_averageRating st =
        Some (if storeRatingValues d (store_id st) = [] then ''0.00''
              else toFixed2 (parseFloat (mean (storeRatingValues d (store_id st)))))
      \<and> store_totalRatings st = Some (int (length (storeRatingValues d (store_id st)))))"

definition materialized :: "db \<Rightarrow> bool" where
  "materialized d = list_all (materialized_row d) (stores d)"

text \<open>A text with exactly two decimals: a sign or none, digits, a point, two digits.\<close>

definition isDigit :: "char \<Rightarrow> bool" where
  "isDigit c = (CHR ''0'' \<le> c \<and> c \<le> CHR ''9'')"

definition unsignedPart :: "string \<Rightarrow> string" where
  "unsignedPart s = (case s of [] \<Rightarrow> [] | c # t \<Rightarrow> if c = CHR ''-'' then t else c # t)"

definition twoDecimals :: "string \<Rightarrow> bool" where
  "twoDecimals s =
     (case rev (unsignedPart s) of
        b # a # p # ip \<Rightarrow>
          isDigit b \<and> isDigit a \<and> p = CHR ''.'' \<and> ip \<noteq> [] \<and> list_all isDigit ip
      | _ \<Rightarrow> False)"

text \<open>
  The unique constraint \<open>userStoreUnique\<close> as a property of the table, the rows of one user
  for one store, and a run of \<open>POST /api/ratings\<close> requests, each with its clock, its
  session and its body.
\<close>

definition userStoreUnique :: "db \<Rightarrow> bool" where
  "userStoreUnique d = distinct (map (\<lambda>r. (rating_userId r, rating_storeId r)) (ratings d))"

definition rowsOf :: "int \<Rightarrow> int \<Rightarrow> db \<Rightarrow> Rating list" where
  "rowsOf u sid d = filter (\<lambda>r. rating_userId r = u \<and> rating_storeId r = sid) (ratings d)"

fun submit_all :: "(nat \<times> session \<times> json) list \<Rightarrow> db \<Rightarrow> db" where
  "submit_all [] d = d"
| "submit_all ((now, s, b) # rest) d = submit_all rest (snd (snd (post_ratings now b (s, d))))"

text \<open>
  The row a first submission inserts, and what a later submission makes of the stored row:
  the rating is replaced, the review is replaced when the submission carries one.
\<close>

definition newRating :: "nat \<Rightarrow> int \<Rightarrow> int \<Rightarrow> int \<Rightarrow> string option \<Rightarrow> db \<Rightarrow> Rating" where
  "newRating now uid sid rt rv d =
     \<lparr>rating_id = ratings_id_seq d + 1, rating_userId = uid, rating_storeId = sid,
      rating_rating = rt, rating_review = rv, rating_createdAt = now,
      rating_updatedAt = now\<rparr>"

definition overwrite :: "int \<Rightarrow> string option \<Rightarrow> Rating \<Rightarrow> Rating" where
  "overwrite rt rv x =
     x\<lparr>rating_rating := rt,
       rating_review := (case rv of None \<Rightarrow> rating_review x | Some v \<Rightarrow> Some v)\<rparr>"

text \<open>The review a body carries, if any.\<close>

definition reviewOf :: "json \<Rightarrow> string option" where
  "reviewOf b = (case map_of (spread b) ''review'' of Some (JStr v) \<Rightarrow> Some v | _ \<Rightarrow> None)"

text \<open>The users whose session sent, somewhere in the run, a body that names the store.\<close>

definition submitters :: "(nat \<times> session \<times> json) list \<Rightarrow> int \<Rightarrow> int set" where
  "submitters subs sid =
     set (List.map_filter
            (\<lambda>(now, s, b). if map_of (spread b) ''storeId'' = Some (JNum (of_int sid))
                            then userId s else None)
            subs)"

text \<open>The routes registered behind \<open>requireAdmin\<close>.\<close>

fun adminOnly :: "request \<Rightarrow> bool" where
  "adminOnly (PostStores b) = True"
| "adminOnly GetUsers = True"
| "adminOnly (PostUsers b) = True"
| "adminOnly GetStatistics = True"
| "adminOnly _ = False"

text \<open>A JSON value has a property named \<open>k\<close>, at any depth.\<close>

primrec has_key :: "string \<Rightarrow> json \<Rightarrow> bool" where
  "has_key k JNull = False"
| "has_key k (JBool b) = False"
| "has_key k (JNum x) = False"
| "has_key k (JStr s) = False"
| "has_key k (JArr xs) = list_ex (\<lambda>b. b) (map (has_key k) xs)"
| "has_key k (JObj kvs) =
     list_ex (\<lambda>p. fst p = k \<or> snd p) (map (map_prod (\<lambda>x. x) (has_key k)) kvs)"

text \<open>The \<open>name\<close> properties of the elements of a JSON array, in order.\<close>

definition storeNames :: "json \<Rightarrow> string list" where
  "storeNames j =
     (case j of
        JArr xs \<Rightarrow>
          map (\<lambda>x. case x of
                      JObj kvs \<Rightarrow> (case map_of kvs ''name'' of Some (JStr n) \<Rightarrow> n | _ \<Rightarrow> [])
                    | _ \<Rightarrow> [])
            xs
      | _ \<Rightarrow> [])"

subsection \<open>Example data\<close>

definition exampleEnv :: env where
  "exampleEnv =
     \<lparr>validEmail = (\<lambda>s. CHR ''@'' \<in> set s),
      bcryptHash = (\<lambda>p. ''$2a$10$'' @ p),
      bcryptCompare = (\<lambda>p h. h = ''$2a$10$'' @ p)\<rparr>"

definition anonymous :: session where
  "anonymous = \<lparr>userId = None, user = None\<rparr>"

definition loggedIn :: "int \<Rightarrow> string \<Rightarrow> session" where
  "loggedIn i r =
     \<lparr>userId = Some i,
      user = Some \<lparr>snap_id = i, snap_name = ''Example Person Of The Platform'',
                   snap_email = ''person@example.org'', snap_role = r\<rparr>\<rparr>"

definition exampleUser :: "int \<Rightarrow> string \<Rightarrow> string \<Rightarrow> User" where
  "exampleUser i e r =
     \<lparr>user_id = i, user_name = ''Example Person Of The Platform'', user_email = e,
      user_password = ''$2a$10$Secret!234'', user_address = None, user_role = r,
      user_createdAt = 0, user_updatedAt = 0\<rparr>"

definition exampleStore :: "int \<Rightarrow> string \<Rightarrow> string \<Rightarrow> Store" where
  "exampleStore i n e =
     \<lparr>store_id = i, store_name = n, store_email = e, store_address = ''1 Main Street'',
      store_ownerId = 1, store_averageRating = Some ''0.00'', store_totalRatings = Some 0,
      store_createdAt = 0, store_updatedAt = 0\<rparr>"

definition emptyDb :: db where
  "emptyDb = \<lparr>users = [], stores = [], ratings = [],
              users_id_seq = 0, stores_id_seq = 0, ratings_id_seq = 0\<rparr>"

text \<open>Three users, an owner and two raters, and two stores without ratings.\<close>

definition exampleDb :: db where
  "exampleDb =
     \<lparr>users = [exampleUser 1 ''owner@example.org'' ''store_owner'',
               exampleUser 2 ''rater@example.org'' ''user'',
               exampleUser 3 ''second@example.org'' ''user''],
      stores = [exampleStore 1 ''Corner Shop'' ''shop@example.org'',
                exampleStore 2 ''Bakery'' ''bakery@example.org''],
      ratings = [],
      users_id_seq = 3, stores_id_seq = 2, ratings_id_seq = 0\<rparr>"

text \<open>
  The example database after user 2 rated store 1 with 4 and user 3 rated it with 2 and the
  review \<open>ok\<close>.
\<close>

definition ratedDb :: db where
  "ratedDb =
     submit_all
       [(1, loggedIn 2 ''user'', JObj [(''storeId'', JNum 1), (''rating'', JNum 4)]),
        (2, loggedIn 3 ''user'',
         JObj [(''storeId'', JNum 1), (''rating'', JNum 2), (''review'', JStr ''ok'')])]
       exampleDb"


section \<open>Properties\<close>

declare digits.simps [simp del]

lemma both_Inr_iff [simp]:
  "both a b = Inr p \<longleftrightarrow> a = Inr (fst p) \<and> b = Inr (snd p)"
  by (cases a; cases b; cases p) auto

subsection \<open>The aggregate recompute\<close>

text \<open>
  Claim C8. The aggregate recompute is idempotent: for every store, running
  \<open>updateStoreRating\<close> twice in a row, with no rating written in between, leaves the database
  (and so \<open>averageRating\<close> and \<open>totalRatings\<close> of every store row) as the first run left it.
\<close>

theorem updateStoreRating_idempotent:
  "updateStoreRating sid (updateStoreRating sid d) = updateStoreRating sid d"
  by (simp add: updateStoreRating_def o_def)


subsection \<open>Registration\<close>

text \<open>
  Claim C3, at the failing input. A registration from an anonymous session whose body
  names the role \<open>admin\<close> passes \<open>insertUserSchema\<close>, is answered 200, and creates a user with
  the role \<open>admin\<close>, not \<open>user\<close>: the handler hands the parsed role to \<open>createUser\<close> and
  nothing forces it.
\<close>

theorem register_admin_accepted:
  "status (fst (post_auth_register exampleEnv 5
             (JObj [(''name'', JStr ''Mallory Visitor Of The Site''),
                    (''email'', JStr ''mallory@example.org''),
                    (''password'', JStr ''Secret!234''), (''role'', JStr ''admin'')])
             (anonymous, emptyDb))) = 200
   \<and> map user_role (users (snd (snd (post_auth_register exampleEnv 5
             (JObj [(''name'', JStr ''Mallory Visitor Of The Site''),
                    (''email'', JStr ''mallory@example.org''),
                    (''password'', JStr ''Secret!234''), (''role'', JStr ''admin'')])
             (anonymous, emptyDb))))) = [''admin'']"
  by code_simp

subsection \<open>Login\<close>

text \<open>
  Claim C6, as stated, fails: a login whose email is that of an existing user and whose
  password is the empty text (which does not verify against the stored hash) is answered
  400 by the schema, not 401.
\<close>

theorem login_empty_password_counterexample:
  "map_option user_id (getUserByEmail ''rater@example.org'' exampleDb) = Some 2
   \<and> \<not> bcryptCompare exampleEnv []
         (user_password (exampleUser 2 ''rater@example.org'' ''user''))
   \<and> status (fst (post_auth_login exampleEnv
                     (JObj [(''email'', JStr ''rater@example.org''), (''password'', JStr [])])
                     (anonymous, exampleDb))) = 400"
  by code_simp

text \<open>
  Claim C6, amended. For every \<open>POST /api/auth/login\<close> request whose body passes the login
  schema (an email of valid syntax and a non-empty password), whose email is that of an
  existing user and whose password does not verify against that user's stored hash, the
  response is 401 and the session and the database are unchanged. A body that fails the
  schema is answered 400 with the first issue's message, the session and the database
  unchanged. Every login that is not answered 200 leaves the session as it was: no \<open>userId\<close>
  and no snapshot is written.
\<close>

theorem login_wrong_password:
  "(loginSchema E reqBody = Inr (email, password) \<and> getUserByEmail email d = Some u
      \<and> \<not> bcryptCompare E password (user_password u)
     \<longrightarrow> post_auth_login E reqBody (s, d) = (message 401 ''Invalid credentials'', (s, d)))
   \<and> (loginSchema E reqBody = Inl e
     \<longrightarrow> post_auth_login E reqBody (s, d) = (message 400 (firstMessage e), (s, d)))
   \<and> (status (fst (post_auth_login E reqBody (s, d))) \<noteq> 200
     \<longrightarrow> snd (post_auth_login E reqBody (s, d)) = (s, d))"
  by (auto simp: post_auth_login_def message_def ok_def split: sum.splits option.splits)

text \<open>
  Witness for C6: the rater of the example database logs in with a wrong password and is
  answered 401, and with an empty password and is answered 400.
\<close>

theorem login_wrong_password_witness:
  "loginSchema exampleEnv
       (JObj [(''email'', JStr ''rater@example.org''), (''password'', JStr ''Wrong!234'')])
     = Inr (''rater@example.org'', ''Wrong!234'')
   \<and> getUserByEmail ''rater@example.org'' exampleDb
       = Some (exampleUser 2 ''rater@example.org'' ''user'')
   \<and> \<not> bcryptCompare exampleEnv ''Wrong!234''
         (user_password (exampleUser 2 ''rater@example.org'' ''user''))
   \<and> post_auth_login exampleEnv
        (JObj [(''email'', JStr ''rater@example.org''), (''password'', JStr ''Wrong!234'')])
        (anonymous, exampleDb)
       = (message 401 ''Invalid credentials'', (anonymous, exampleDb))
   \<and> status (fst (post_auth_login exampleEnv
        (JObj [(''email'', JStr ''rater@example.org''), (''password'', JStr ''Wrong!234'')])
        (anonymous, exampleDb))) \<noteq> 200
   \<and> loginSchema exampleEnv
       (JObj [(''email'', JStr ''rater@example.org''), (''password'', JStr [])])
     = Inl [''Password is required'']
   \<and> post_auth_login exampleEnv
        (JObj [(''email'', JStr ''rater@example.org''), (''password'', JStr [])])
        (anonymous, exampleDb)
       = (message 400 ''Password is required'', (anonymous, exampleDb))"
proof -
  have parsed: "loginSchema exampleEnv
       (JObj [(''email'', JStr ''rater@example.org''), (''password'', JStr ''Wrong!234'')])
     = Inr (''rater@example.org'', ''Wrong!234'')"
    by code_simp
  have found: "getUserByEmail ''rater@example.org'' exampleDb
       = Some (exampleUser 2 ''rater@example.org'' ''user'')"
    by code_simp
  have wrong: "\<not> bcryptCompare exampleEnv ''Wrong!234''
         (user_password (exampleUser 2 ''rater@example.org'' ''user''))"
    by code_simp
  have rejected: "loginSchema exampleEnv
       (JObj [(''email'', JStr ''rater@example.org''), (''password'', JStr [])])
     = Inl [''Password is required'']"
    by code_simp
  show ?thesis
    using login_wrong_password [where E = exampleEnv
        and reqBody = "JObj [(''email'', JStr ''rater@example.org''),
                             (''password'', JStr ''Wrong!234'')]"
        and email = "''rater@example.org''" and password = "''Wrong!234''"
        and d = exampleDb and u = "exampleUser 2 ''rater@example.org'' ''user''"
        and s = anonymous]
      login_wrong_password [where E = exampleEnv
        and reqBody = "JObj [(''email'', JStr ''rater@example.org''), (''password'', JStr [])]"
        and e = "[''Password is required'']" and d = exampleDb and s = anonymous]
      parsed found wrong rejected
    by (simp add: message_def firstMessage_def)
qed

subsection \<open>Admin-only routes\<close>

text \<open>
  Claim C7. For every request to an admin-only route (\<open>POST /api/stores\<close>, \<open>GET /api/users\<close>,
  \<open>POST /api/users\<close>, \<open>GET /api/statistics\<close>) from a session whose snapshot is absent or has a
  role other than \<open>admin\<close>, the response is 403 and nothing is mutated: the session and the
  database (users, stores, ratings) are as before.
\<close>

theorem admin_only_forbidden:
  "adminOnly req \<Longrightarrow> \<not> isAdmin s \<Longrightarrow>
   handle E now req (s, d) = (message 403 ''Forbidden'', (s, d))"
  by (cases req)
     (auto simp: requireAdmin_def isAdmin_def post_stores_def get_users_def post_users_def
        get_statistics_def split: option.splits)

text \<open>Witness for C7: a logged-in user with role \<open>user\<close> tries to create a store.\<close>

theorem admin_only_forbidden_witness:
  "adminOnly (PostStores (JObj [(''name'', JStr ''Second Shop''),
                                (''email'', JStr ''second@example.org''),
                                (''address'', JStr ''2 Main Street''), (''ownerId'', JNum 1)]))
   \<and> \<not> isAdmin (loggedIn 2 ''user'')
   \<and> handle exampleEnv 7
        (PostStores (JObj [(''name'', JStr ''Second Shop''),
                           (''email'', JStr ''second@example.org''),
                           (''address'', JStr ''2 Main Street''), (''ownerId'', JNum 1)]))
        (loggedIn 2 ''user'', exampleDb)
     = (message 403 ''Forbidden'', (loggedIn 2 ''user'', exampleDb))"
  using admin_only_forbidden
    [of "PostStores (JObj [(''name'', JStr ''Second Shop''),
                           (''email'', JStr ''second@example.org''),
                           (''address'', JStr ''2 Main Street''), (''ownerId'', JNum 1)])"
        "loggedIn 2 ''user''" exampleEnv 7 exampleDb]
  by (simp add: isAdmin_def loggedIn_def)

subsection \<open>Listing stores\<close>

text \<open>
  Claim C10. \<open>GET /api/stores\<close> ignores \<open>sortBy\<close> and \<open>sortOrder\<close>: two requests from the same
  session on the same database that differ only in these two parameters get the same
  response, and the stores of a 200 response are those of \<open>getAllStores\<close> or \<open>searchStores\<close>,
  in ascending order of their names.
\<close>

theorem get_stores_ignores_sort:
  "get_stores (q\<lparr>sortBy := a, sortOrder := b\<rparr>) st = get_stores q st
   \<and> (status (fst (get_stores q st)) = 200 \<longrightarrow>
        storeNames (body (fst (get_stores q st))) = map store_name (listedStores q (snd st))
        \<and> sorted (storeNames (body (fst (get_stores q st)))))"
proof -
  have names:
    "storeNames (JArr (map (\<lambda>store. if c
                                      then JObj (store_props store @ [(''userRating'', f store)])
                                      else JObj (store_props store)) xs))
       = map store_name xs" for c f xs
    by (simp add: storeNames_def store_props_def o_def)
  have srt: "sorted (map store_name (listedStores q d))" for d
    by (simp add: listedStores_def getAllStores_def searchStores_def split: option.splits)
  have eq: "get_stores (q\<lparr>sortBy := a, sortOrder := b\<rparr>) st = get_stores q st"
    by (simp add: get_stores_def listedStores_def)
  show ?thesis
    using eq names srt
    by (auto simp: get_stores_def requireAuth_def ok_def message_def split: option.splits)
qed

text \<open>
  Witness for C10: the rater lists the two stores of the example database, once asking for
  a descending order by rating; both answers list Bakery before Corner Shop.
\<close>

theorem get_stores_ignores_sort_witness:
  "get_stores \<lparr>search = None, sortBy = Some ''rating'', sortOrder = Some ''desc''\<rparr>
       (loggedIn 2 ''user'', exampleDb)
     = get_stores \<lparr>search = None, sortBy = None, sortOrder = None\<rparr>
         (loggedIn 2 ''user'', exampleDb)
   \<and> status (fst (get_stores \<lparr>search = None, sortBy = None, sortOrder = None\<rparr>
                     (loggedIn 2 ''user'', exampleDb))) = 200
   \<and> storeNames (body (fst (get_stores \<lparr>search = None, sortBy = None, sortOrder = None\<rparr>
                     (loggedIn 2 ''user'', exampleDb)))) = [''Bakery'', ''Corner Shop'']
   \<and> sorted [''Bakery'', ''Corner Shop'']"
proof -
  have accepted: "status (fst (get_stores \<lparr>search = None, sortBy = None, sortOrder = None\<rparr>
                     (loggedIn 2 ''user'', exampleDb))) = 200"
    by code_simp
  have listed:
    "map store_name (listedStores \<lparr>search = None, sortBy = None, sortOrder = None\<rparr> exampleDb)
       = [''Bakery'', ''Corner Shop'']"
    by code_simp
  show ?thesis
    using get_stores_ignores_sort
        [where q = "\<lparr>search = None, sortBy = None, sortOrder = None\<rparr>"
           and a = "Some ''rating''" and b = "Some ''desc''"
           and st = "(loggedIn 2 ''user'', exampleDb)"] accepted listed
    by simp
qed

subsection \<open>Rating values\<close>

text \<open>
  Claim C4, at the failing input. The body \<open>{storeId: 1, rating: 3.5}\<close> passes
  \<open>insertRatingSchema\<close>, whose \<open>rating\<close> is a number from 1 to 5 and not an integer; the
  \<open>integer\<close> column then rejects the value, and the answer is 500, not a 400 validation
  error. No row is written.
\<close>

theorem rating_fraction_accepted:
  "insertRatingSchema
       (JObj [(''userId'', JNum 2), (''storeId'', JNum 1), (''rating'', JNum (7 / 2))])
     = Inr \<lparr>ir_userId = 2, ir_storeId = 1, ir_rating = 7 / 2, ir_review = None\<rparr>
   \<and> post_ratings 3 (JObj [(''storeId'', JNum 1), (''rating'', JNum (7 / 2))])
        (loggedIn 2 ''user'', exampleDb)
     = (message 500 ''Failed to submit rating'', (loggedIn 2 ''user'', exampleDb))"
  by code_simp


subsection \<open>Passwords in responses\<close>

lemma has_key_JArr_map [simp]:
  "has_key k (JArr (map f xs)) \<longleftrightarrow> (\<exists>x\<in>set xs. has_key k (f x))"
  by (simp add: list_ex_iff)

lemma has_key_JObj_Nil [simp]: "\<not> has_key k (JObj [])"
  by simp

lemma has_key_JObj_Cons [simp]:
  "has_key k (JObj (p # ps)) \<longleftrightarrow> fst p = k \<or> has_key k (snd p) \<or> has_key k (JObj ps)"
  by (cases p) simp

lemma has_key_JObj_append [simp]:
  "has_key k (JObj (ps @ qs)) \<longleftrightarrow> has_key k (JObj ps) \<or> has_key k (JObj qs)"
  by (induction ps) (simp_all del: has_key.simps)

declare has_key.simps(5,6) [simp del]

lemma has_key_nullable [simp]:
  "has_key k (nullable f v) \<longleftrightarrow> (\<exists>a. v = Some a \<and> has_key k (f a))"
  by (cases v) (simp_all add: nullable_def)

lemma has_key_message [simp]: "\<not> has_key ''password'' (body (message c m))"
  by (simp add: message_def)

lemma has_key_userWithoutPassword [simp]: "\<not> has_key ''password'' (userWithoutPassword u)"
  by (simp add: userWithoutPassword_def omit_def user_props_def timestamp_def)

lemma has_key_store_props [simp]: "\<not> has_key ''password'' (JObj (store_props s))"
  by (simp add: store_props_def timestamp_def)

lemma has_key_userRating [simp]: "\<not> has_key k (userRating r)"
  by (simp add: userRating_def split: option.splits)

lemma has_key_rating_props [simp]: "\<not> has_key ''password'' (JObj (rating_props r))"
  by (simp add: rating_props_def timestamp_def)

lemma no_password_register: "\<not> has_key ''password'' (body (fst (post_auth_register E now b st)))"
  by (simp add: post_auth_register_def ok_def split: sum.splits option.splits prod.splits)

lemma no_password_login: "\<not> has_key ''password'' (body (fst (post_auth_login E b st)))"
  by (simp add: post_auth_login_def ok_def split: sum.splits option.splits prod.splits)

lemma no_password_logout: "\<not> has_key ''password'' (body (fst (post_auth_logout err st)))"
  by (simp add: post_auth_logout_def)

lemma no_password_requireAuth:
  "(\<And>uid. \<not> has_key ''password'' (body (fst (next uid st)))) \<Longrightarrow>
   \<not> has_key ''password'' (body (fst (requireAuth next st)))"
  by (simp add: requireAuth_def split: option.splits)

lemma no_password_requireAdmin:
  "\<not> has_key ''password'' (body (fst (next st))) \<Longrightarrow>
   \<not> has_key ''password'' (body (fst (requireAdmin next st)))"
  by (simp add: requireAdmin_def split: option.splits)

lemma no_password_me: "\<not> has_key ''password'' (body (fst (get_auth_me st)))"
  unfolding get_auth_me_def
  by (rule no_password_requireAuth) (simp add: ok_def split: option.splits)

lemma no_password_change: "\<not> has_key ''password'' (body (fst (post_auth_change_password E b st)))"
  unfolding post_auth_change_password_def
  by (rule no_password_requireAuth) (simp add: ok_def split: sum.splits option.splits prod.splits)

lemma no_password_get_stores: "\<not> has_key ''password'' (body (fst (get_stores q st)))"
  unfolding get_stores_def
  by (rule no_password_requireAuth) (simp add: ok_def)

lemma no_password_post_stores: "\<not> has_key ''password'' (body (fst (post_stores E now b st)))"
  unfolding post_stores_def
  by (rule no_password_requireAdmin) (simp add: ok_def split: sum.splits option.splits prod.splits)

lemma no_password_stores_owner: "\<not> has_key ''password'' (body (fst (get_stores_owner p st)))"
  unfolding get_stores_owner_def
  by (rule no_password_requireAuth)
     (simp add: ok_def split: sum.splits)

lemma no_password_post_ratings: "\<not> has_key ''password'' (body (fst (post_ratings now b st)))"
  unfolding post_ratings_def
  by (rule no_password_requireAuth)
     (simp add: ok_def split: sum.splits option.splits prod.splits)

lemma no_password_ratings_store: "\<not> has_key ''password'' (body (fst (get_ratings_store p st)))"
  unfolding get_ratings_store_def
  by (rule no_password_requireAuth)
     (simp add: ok_def split: sum.splits)

lemma no_password_get_users: "\<not> has_key ''password'' (body (fst (get_users st)))"
  unfolding get_users_def
  by (rule no_password_requireAdmin) (simp add: ok_def)

lemma no_password_post_users: "\<not> has_key ''password'' (body (fst (post_users E now b st)))"
  unfolding post_users_def
  by (rule no_password_requireAdmin) (simp add: ok_def split: sum.splits option.splits prod.splits)

lemma no_password_statistics: "\<not> has_key ''password'' (body (fst (get_statistics st)))"
  unfolding get_statistics_def
  by (rule no_password_requireAdmin) (simp add: ok_def split: prod.splits)

text \<open>
  Claim C9. No response of any route contains a \<open>password\<close> property, at any depth of its
  JSON body: on every path, success or error, a user that is returned has its password
  removed, and an error body is a message only.
\<close>

theorem no_password_in_response:
  "\<not> has_key ''password'' (body (fst (handle E now req st)))"
  by (cases req)
     (simp_all add: no_password_register no_password_login no_password_logout no_password_me
        no_password_change no_password_get_stores no_password_post_stores
        no_password_stores_owner no_password_post_ratings no_password_ratings_store
        no_password_get_users no_password_post_users no_password_statistics)

text \<open>
  Witness for C9: an admin lists the users of the example database; the rows carry a
  password, the response does not.
\<close>

theorem no_password_in_response_witness:
  "has_key ''password'' (JObj (user_props (exampleUser 2 ''rater@example.org'' ''user'')))
   \<and> status (fst (handle exampleEnv 9 GetUsers (loggedIn 1 ''admin'', exampleDb))) = 200
   \<and> \<not> has_key ''password''
         (body (fst (handle exampleEnv 9 GetUsers (loggedIn 1 ''admin'', exampleDb))))"
proof -
  have row: "has_key ''password''
               (JObj (user_props (exampleUser 2 ''rater@example.org'' ''user'')))"
    by (simp add: user_props_def)
  have listed: "status (fst (handle exampleEnv 9 GetUsers (loggedIn 1 ''admin'', exampleDb))) = 200"
    by code_simp
  show ?thesis
    using row listed
      no_password_in_response [of exampleEnv 9 GetUsers "(loggedIn 1 ''admin'', exampleDb)"]
    by simp
qed


subsection \<open>What a rating submission does\<close>

lemma z_number_Inr [simp]: "z_number c v = Inr x \<longleftrightarrow> v = Some (JNum x) \<and> c x = []"
  by (cases "(c, v)" rule: z_number.cases) auto

lemma z_string_Inr [simp]: "z_string c v = Inr x \<longleftrightarrow> v = Some (JStr x) \<and> c x = []"
  by (cases "(c, v)" rule: z_string.cases) auto

lemma z_optional_Inr [simp]:
  "z_optional p v = Inr a \<longleftrightarrow>
     (v = None \<and> a = None) \<or> (\<exists>j x. v = Some j \<and> p (Some j) = Inr x \<and> a = Some x)"
  by (cases v) (auto split: sum.splits)

lemma chk_Nil [simp]: "chk c m = [] \<longleftrightarrow> c"
  by (simp add: chk_def)

lemma pg_integer_Inr [simp]:
  "pg_integer (Num x) = Inr i \<longleftrightarrow> x = of_int i \<and> - 2147483648 \<le> i \<and> i \<le> 2147483647"
  by (auto simp: pg_integer_def)
lemma both_Inl_iff:
  "both a b = Inl e \<longleftrightarrow>
     (\<exists>ea. a = Inl ea \<and> ((\<exists>y. b = Inr y \<and> e = ea) \<or> (\<exists>eb. b = Inl eb \<and> e = ea @ eb)))
     \<or> (\<exists>x. a = Inr x \<and> b = Inl e)"
  by (cases a; cases b) auto

lemma z_optional_Inl:
  "z_optional p v = Inl e \<longleftrightarrow> (\<exists>j. v = Some j \<and> p (Some j) = Inl e)"
  by (cases v) (auto split: sum.splits)

lemma insertRatingSchema_Inr:
  "insertRatingSchema (JObj kvs) = Inr rd \<longleftrightarrow>
     (\<exists>u sid rt. map_of kvs ''userId'' = Some (JNum u) \<and> map_of kvs ''storeId'' = Some (JNum sid)
        \<and> map_of kvs ''rating'' = Some (JNum rt) \<and> 1 \<le> rt \<and> rt \<le> 5
        \<and> (map_of kvs ''review'' = None \<or> (\<exists>v. map_of kvs ''review'' = Some (JStr v) \<and> length v \<le> 1000))
        \<and> rd = \<lparr>ir_userId = u, ir_storeId = sid, ir_rating = rt,
                 ir_review = (case map_of kvs ''review'' of Some (JStr v) \<Rightarrow> Some v | _ \<Rightarrow> None)\<rparr>)"
  by (auto simp: insertRatingSchema_def both_Inl_iff z_optional_Inl split: sum.splits prod.splits)

lemma find_None_filter: "find P xs = None \<longleftrightarrow> filter P xs = []"
  by (induction xs) auto

lemma find_Some_hd: "find P xs = Some x \<Longrightarrow> filter P xs \<noteq> [] \<and> hd (filter P xs) = x \<and> P x"
  by (induction xs) (auto split: if_splits)

lemma createRating_Inr:
  assumes "createRating now rd d = Inr (row, d')"
  shows "\<exists>u sid rt. ir_userId rd = of_int u \<and> ir_storeId rd = of_int sid \<and> ir_rating rd = of_int rt
           \<and> row = newRating now u sid rt (ir_review rd) d
           \<and> d' = updateStoreRating sid (d\<lparr>ratings := ratings d @ [row],
                                             ratings_id_seq := ratings_id_seq d + 1\<rparr>)"
  using assms
  by (auto simp: createRating_def newRating_def Let_def split: sum.splits if_splits)

lemma overwrite_hit:
  "rating_userId x = uid \<Longrightarrow> rating_storeId x = sid \<Longrightarrow>
   x\<lparr>rating_userId := uid, rating_storeId := sid, rating_rating := rt,
     rating_review := (case rv of None \<Rightarrow> rating_review x | Some v \<Rightarrow> Some v)\<rparr> = overwrite rt rv x"
  by (cases x; cases rv) (simp_all add: overwrite_def)

lemma updateRating_Inr:
  assumes "updateRating uid (Num (of_int sid)) rd d = Inr (row, d')"
    and "ir_userId rd = of_int uid" and "ir_storeId rd = of_int sid"
  shows "\<exists>rt. ir_rating rd = of_int rt
           \<and> row = map_option (overwrite rt (ir_review rd)) (find (\<lambda>x. rating_userId x = uid \<and> rating_storeId x = sid) (ratings d))
           \<and> d' = updateStoreRating sid
                    (d\<lparr>ratings := map (\<lambda>x. if rating_userId x = uid \<and> rating_storeId x = sid
                                           then overwrite rt (ir_review rd) x else x) (ratings d)\<rparr>)"
proof -
  from assms obtain rt where rt: "ir_rating rd = of_int rt"
    and row: "row = map_option (\<lambda>x. x\<lparr>rating_userId := uid, rating_storeId := sid, rating_rating := rt,
                   rating_review := (case ir_review rd of None \<Rightarrow> rating_review x | Some v \<Rightarrow> Some v)\<rparr>)
                 (find (\<lambda>x. rating_userId x = uid \<and> rating_storeId x = sid) (ratings d))"
    and d': "d' = updateStoreRating sid
                    (d\<lparr>ratings := map (\<lambda>x. if rating_userId x = uid \<and> rating_storeId x = sid
                                           then x\<lparr>rating_userId := uid, rating_storeId := sid, rating_rating := rt,
                   rating_review := (case ir_review rd of None \<Rightarrow> rating_review x | Some v \<Rightarrow> Some v)\<rparr> else x) (ratings d)\<rparr>)"
    by (auto simp: updateRating_def Let_def split: sum.splits if_splits)
  have m: "map (\<lambda>x. if rating_userId x = uid \<and> rating_storeId x = sid
                                           then x\<lparr>rating_userId := uid, rating_storeId := sid, rating_rating := rt,
                   rating_review := (case ir_review rd of None \<Rightarrow> rating_review x | Some v \<Rightarrow> Some v)\<rparr> else x) (ratings d)
        = map (\<lambda>x. if rating_userId x = uid \<and> rating_storeId x = sid
                                           then overwrite rt (ir_review rd) x else x) (ratings d)"
    by (rule map_cong) (auto simp: overwrite_hit)
  have r: "row = map_option (overwrite rt (ir_review rd)) (find (\<lambda>x. rating_userId x = uid \<and> rating_storeId x = sid) (ratings d))"
  proof (cases "find (\<lambda>x. rating_userId x = uid \<and> rating_storeId x = sid) (ratings d)")
    case None
    then show ?thesis using row by simp
  next
    case (Some old)
    then have "rating_userId old = uid \<and> rating_storeId old = sid"
      using find_Some_hd by fastforce
    then show ?thesis using row Some by (simp add: overwrite_hit)
  qed
  show ?thesis using rt r d' m by auto
qed

lemma updateRating_hit:
  assumes ur: "updateRating uid (Num (of_int sid)) rd d = Inr (row, d')"
    and iu: "ir_userId rd = of_int uid" and isid: "ir_storeId rd = of_int sid"
  obtains rt where "ir_rating rd = of_int rt"
    and "row = map_option (overwrite rt (ir_review rd))
                 (find (\<lambda>x. rating_userId x = uid \<and> rating_storeId x = sid) (ratings d))"
    and "d' = updateStoreRating sid
                (d\<lparr>ratings := map (\<lambda>x. if rating_userId x = uid \<and> rating_storeId x = sid
                                       then overwrite rt (ir_review rd) x else x) (ratings d)\<rparr>)"
  using updateRating_Inr [OF ur iu isid] by (elim exE conjE)

lemma post_ratings_200:
  assumes run: "post_ratings now b (s, d) = (r, s', d')" and ok: "status r = 200"
  obtains (inserted) uid sid rt where "userId s = Some uid" and "s' = s"
      and "map_of (spread b) ''storeId'' = Some (JNum (of_int sid))"
      and "map_of (spread b) ''rating'' = Some (JNum (of_int rt))"
      and "rowsOf uid sid d = []"
      and "body r = JObj (rating_props (newRating now uid sid rt (reviewOf b) d))"
      and "d' = updateStoreRating sid
                  (d\<lparr>ratings := ratings d @ [newRating now uid sid rt (reviewOf b) d],
                     ratings_id_seq := ratings_id_seq d + 1\<rparr>)"
  | (overwritten) uid sid rt where "userId s = Some uid" and "s' = s"
      and "map_of (spread b) ''storeId'' = Some (JNum (of_int sid))"
      and "map_of (spread b) ''rating'' = Some (JNum (of_int rt))"
      and "rowsOf uid sid d \<noteq> []"
      and "body r = JObj (rating_props (overwrite rt (reviewOf b) (hd (rowsOf uid sid d))))"
      and "d' = updateStoreRating sid
                  (d\<lparr>ratings := map (\<lambda>x. if rating_userId x = uid \<and> rating_storeId x = sid
                                         then overwrite rt (reviewOf b) x else x)
                                   (ratings d)\<rparr>)"
proof -
  from run ok obtain uid where uid: "userId s = Some uid" "uid \<noteq> 0"
    by (auto simp: post_ratings_def requireAuth_def message_def split: option.splits if_splits)
  let ?kvs = "AList.update ''userId'' (JNum (of_int uid)) (spread b)"
  from run ok uid obtain rd where rd: "insertRatingSchema (JObj ?kvs) = Inr rd"
    by (auto simp: post_ratings_def requireAuth_def message_def split: sum.splits)
  then obtain sidq rtq where
    f: "map_of (spread b) ''storeId'' = Some (JNum sidq)"
      "map_of (spread b) ''rating'' = Some (JNum rtq)"
    and rdeq: "rd = \<lparr>ir_userId = of_int uid, ir_storeId = sidq, ir_rating = rtq,
                     ir_review = reviewOf b\<rparr>"
    by (auto simp: insertRatingSchema_Inr update_conv' reviewOf_def)
  from run ok uid rd obtain sid where sid: "sidq = of_int sid"
    by (auto simp: post_ratings_def requireAuth_def message_def rdeq split: sum.splits)
  have fs: "map_of (spread b) ''storeId'' = Some (JNum (of_int sid))"
    using f(1) sid by simp
  have h: "ir_userId rd = of_int uid" "ir_storeId rd = of_int sid"
    by (simp_all add: rdeq sid)
  have rv: "ir_review rd = reviewOf b" and rq: "ir_rating rd = rtq"
    by (simp_all add: rdeq)
  show thesis
  proof (cases "getRatingByUserAndStore uid sid d")
    case None
    then have rows: "rowsOf uid sid d = []"
      by (simp add: getRatingByUserAndStore_def rowsOf_def find_None_filter)
    from run ok uid rd None sid obtain row where
      cr: "createRating now rd d = Inr (row, d')" and br: "body r = JObj (rating_props row)"
      and s': "s' = s"
      by (auto simp: post_ratings_def requireAuth_def message_def ok_def rdeq split: sum.splits)
    from createRating_Inr [OF cr] obtain u k rt where c:
      "ir_userId rd = of_int u" "ir_storeId rd = of_int k" "ir_rating rd = of_int rt"
      "row = newRating now u k rt (ir_review rd) d"
      "d' = updateStoreRating k (d\<lparr>ratings := ratings d @ [row],
                                     ratings_id_seq := ratings_id_seq d + 1\<rparr>)"
      by (elim exE conjE)
    have uk: "u = uid" "k = sid"
      using c(1,2) h by simp_all
    have fr: "map_of (spread b) ''rating'' = Some (JNum (of_int rt))"
      using f(2) c(3) rq by simp
    show thesis
      using uid(1) s' fs fr rows br [unfolded c(4) uk rv] c(5) [unfolded c(4) uk rv]
      by (rule inserted)
  next
    case (Some old)
    then have rows: "rowsOf uid sid d \<noteq> []" "hd (rowsOf uid sid d) = old"
      using find_Some_hd [of "\<lambda>r. rating_userId r = uid \<and> rating_storeId r = sid" "ratings d" old]
      by (simp_all add: getRatingByUserAndStore_def rowsOf_def)
    from run ok uid rd Some sid obtain row where
      ur: "updateRating uid (Num (of_int sid)) rd d = Inr (row, d')"
      and br: "body r = nullable (\<lambda>x. JObj (rating_props x)) row" and s': "s' = s"
      by (auto simp: post_ratings_def requireAuth_def message_def ok_def rdeq split: sum.splits)
    from ur h obtain rt where u:
      "ir_rating rd = of_int rt"
      "row = map_option (overwrite rt (ir_review rd))
               (find (\<lambda>x. rating_userId x = uid \<and> rating_storeId x = sid) (ratings d))"
      "d' = updateStoreRating sid
              (d\<lparr>ratings := map (\<lambda>x. if rating_userId x = uid \<and> rating_storeId x = sid
                                     then overwrite rt (ir_review rd) x else x) (ratings d)\<rparr>)"
      by (rule updateRating_hit)
    have "row = Some (overwrite rt (reviewOf b) old)"
      using u(2) Some by (simp add: getRatingByUserAndStore_def rv)
    then have bo: "body r = JObj (rating_props (overwrite rt (reviewOf b) (hd (rowsOf uid sid d))))"
      using br rows by (simp add: nullable_def)
    have fr: "map_of (spread b) ''rating'' = Some (JNum (of_int rt))"
      using f(2) u(1) rq by simp
    show thesis
      using uid(1) s' fs fr rows(1) bo u(3) [unfolded rv]
      by (rule overwritten)
  qed
qed

lemma post_ratings_fail:
  assumes "post_ratings now b (s, d) = (r, s', d')" and "status r \<noteq> 200"
  shows "s' = s \<and> d' = d"
  using assms
  by (auto simp: post_ratings_def requireAuth_def message_def ok_def split: option.splits if_splits sum.splits)

lemma insertRatingSchema_cong:
  "map_of kvs1 = map_of kvs2 \<Longrightarrow> insertRatingSchema (JObj kvs1) = insertRatingSchema (JObj kvs2)"
  by (simp add: insertRatingSchema_def)

text \<open>
  Claim C5. \<open>POST /api/ratings\<close> binds the submitter from the session, not from the body:
  two bodies that differ only in a \<open>userId\<close> property get the same response and leave the
  same session and database, and the row a successful submission returns is stored with
  the session's \<open>userId\<close>.
\<close>

theorem rating_identity_from_session:
  "((map_of (spread b1))(''userId'' := None) = (map_of (spread b2))(''userId'' := None)
      \<longrightarrow> post_ratings now b1 st = post_ratings now b2 st)
   \<and> (post_ratings now b (s, d) = (r, s', d') \<and> status r = 200
      \<longrightarrow> (\<exists>uid row. userId s = Some uid \<and> row \<in> set (ratings d')
             \<and> rating_userId row = uid \<and> body r = JObj (rating_props row)))"
proof -
  have same: "post_ratings now b1 st = post_ratings now b2 st"
    if agree: "(map_of (spread b1))(''userId'' := None) = (map_of (spread b2))(''userId'' := None)"
  proof -
    have "map_of (AList.update ''userId'' v (spread b1))
            = map_of (AList.update ''userId'' v (spread b2))" for v
    proof -
      have "(map_of (spread b1))(''userId'' \<mapsto> v)
              = ((map_of (spread b1))(''userId'' := None))(''userId'' \<mapsto> v)"
        by simp
      also have "\<dots> = ((map_of (spread b2))(''userId'' := None))(''userId'' \<mapsto> v)"
        using agree by simp
      also have "\<dots> = (map_of (spread b2))(''userId'' \<mapsto> v)"
        by simp
      finally show ?thesis
        by (simp add: update_conv')
    qed
    then have "insertRatingSchema (JObj (AList.update ''userId'' v (spread b1)))
                 = insertRatingSchema (JObj (AList.update ''userId'' v (spread b2)))" for v
      by (rule insertRatingSchema_cong)
    then show ?thesis
      by (simp add: post_ratings_def)
  qed
  have bound: "\<exists>uid row. userId s = Some uid \<and> row \<in> set (ratings d')
             \<and> rating_userId row = uid \<and> body r = JObj (rating_props row)"
    if run: "post_ratings now b (s, d) = (r, s', d')" and ok: "status r = 200"
    using run ok
  proof (cases rule: post_ratings_200)
    case (inserted uid sid rt)
    have "newRating now uid sid rt (reviewOf b) d \<in> set (ratings d')"
      unfolding inserted(7) by (simp add: updateStoreRating_def)
    moreover have "rating_userId (newRating now uid sid rt (reviewOf b) d) = uid"
      by (simp add: newRating_def)
    ultimately show ?thesis
      using inserted(1,6) by blast
  next
    case (overwritten uid sid rt)
    then have "hd (rowsOf uid sid d) \<in> set (rowsOf uid sid d)"
      by simp
    then have old: "hd (rowsOf uid sid d) \<in> set (ratings d)"
      "rating_userId (hd (rowsOf uid sid d)) = uid"
      "rating_storeId (hd (rowsOf uid sid d)) = sid"
      by (simp_all add: rowsOf_def)
    have "overwrite rt (reviewOf b) (hd (rowsOf uid sid d)) \<in> set (ratings d')"
      unfolding overwritten(7) using old by (force simp: updateStoreRating_def)
    moreover have "rating_userId (overwrite rt (reviewOf b) (hd (rowsOf uid sid d))) = uid"
      using old by (simp add: overwrite_def)
    ultimately show ?thesis
      using overwritten(1,6) by blast
  qed
  show ?thesis using same bound by blast
qed

text \<open>
  Witness for C5: the rater (user 2) rates store 1 with 4, once with a body that claims to
  be user 1; both requests are answered alike, and the row belongs to user 2.
\<close>

theorem rating_identity_from_session_witness:
  "(map_of (spread (JObj [(''userId'', JNum 1), (''storeId'', JNum 1), (''rating'', JNum 4)])))
       (''userId'' := None)
     = (map_of (spread (JObj [(''storeId'', JNum 1), (''rating'', JNum 4)])))(''userId'' := None)
   \<and> post_ratings 3 (JObj [(''userId'', JNum 1), (''storeId'', JNum 1), (''rating'', JNum 4)])
        (loggedIn 2 ''user'', exampleDb)
     = post_ratings 3 (JObj [(''storeId'', JNum 1), (''rating'', JNum 4)])
         (loggedIn 2 ''user'', exampleDb)
   \<and> status (fst (post_ratings 3
                     (JObj [(''userId'', JNum 1), (''storeId'', JNum 1), (''rating'', JNum 4)])
                     (loggedIn 2 ''user'', exampleDb))) = 200
   \<and> map rating_userId
         (ratings (snd (snd (post_ratings 3
                     (JObj [(''userId'', JNum 1), (''storeId'', JNum 1), (''rating'', JNum 4)])
                     (loggedIn 2 ''user'', exampleDb))))) = [2]"
proof -
  have differ:
    "(map_of (spread (JObj [(''userId'', JNum 1), (''storeId'', JNum 1), (''rating'', JNum 4)])))
       (''userId'' := None)
     = (map_of (spread (JObj [(''storeId'', JNum 1), (''rating'', JNum 4)])))(''userId'' := None)"
    by (auto simp: fun_eq_iff)
  have accepted: "status (fst (post_ratings 3
                     (JObj [(''userId'', JNum 1), (''storeId'', JNum 1), (''rating'', JNum 4)])
                     (loggedIn 2 ''user'', exampleDb))) = 200"
    by code_simp
  have stored: "map rating_userId
         (ratings (snd (snd (post_ratings 3
                     (JObj [(''userId'', JNum 1), (''storeId'', JNum 1), (''rating'', JNum 4)])
                     (loggedIn 2 ''user'', exampleDb))))) = [2]"
    by code_simp
  show ?thesis
    using differ accepted stored
      rating_identity_from_session
        [where ?b1.0 = "JObj [(''userId'', JNum 1), (''storeId'', JNum 1), (''rating'', JNum 4)]"
           and ?b2.0 = "JObj [(''storeId'', JNum 1), (''rating'', JNum 4)]"
           and now = 3 and st = "(loggedIn 2 ''user'', exampleDb)"]
    by blast
qed


subsection \<open>The aggregate after a rating is written\<close>

lemma ratings_updateStoreRating [simp]: "ratings (updateStoreRating sid d) = ratings d"
  by (simp add: updateStoreRating_def)

lemma storeRatingValues_updateStoreRating [simp]:
  "storeRatingValues (updateStoreRating sid d) k = storeRatingValues d k"
  by (simp add: storeRatingValues_def)

lemma materialized_row_updateStoreRating [simp]:
  "materialized_row (updateStoreRating sid d) st = materialized_row d st"
  by (simp add: materialized_row_def)

lemma recomputed_row:
  "store_id st = sid \<Longrightarrow>
   materialized_row d
     (st\<lparr>store_averageRating :=
           Some (case avgRating (filter (\<lambda>r. rating_storeId r = sid) (ratings d))
                 of Some a \<Rightarrow> toFixed2 (parseFloat a) | None \<Rightarrow> ''0.00''),
         store_totalRatings :=
           Some (int (length (filter (\<lambda>r. rating_storeId r = sid) (ratings d))))\<rparr>)"
  by (simp add: materialized_row_def storeRatingValues_def avgRating_def mean_def)

lemma stores_updateStoreRating_cases:
  assumes "x \<in> set (stores (updateStoreRating sid d))"
  obtains (other) "x \<in> set (stores d)" and "store_id x \<noteq> sid"
  | (rated) xa where "xa \<in> set (stores d)" and "store_id xa = sid"
      and "x = xa\<lparr>store_averageRating :=
                     Some (case avgRating (filter (\<lambda>r. rating_storeId r = sid) (ratings d))
                           of Some a \<Rightarrow> toFixed2 (parseFloat a) | None \<Rightarrow> ''0.00''),
                   store_totalRatings :=
                     Some (int (length (filter (\<lambda>r. rating_storeId r = sid) (ratings d))))\<rparr>"
proof -
  let ?f = "\<lambda>s. if store_id s = sid
                 then s\<lparr>store_averageRating :=
                     Some (case avgRating (filter (\<lambda>r. rating_storeId r = sid) (ratings d))
                           of Some a \<Rightarrow> toFixed2 (parseFloat a) | None \<Rightarrow> ''0.00''),
                   store_totalRatings :=
                     Some (int (length (filter (\<lambda>r. rating_storeId r = sid) (ratings d))))\<rparr>
                 else s"
  have "stores (updateStoreRating sid d) = map ?f (stores d)"
    by (simp add: updateStoreRating_def)
  with assms have "x \<in> ?f ` set (stores d)"
    by (simp only: set_map)
  then obtain xa where xa: "xa \<in> set (stores d)" and x: "x = ?f xa"
    by (rule imageE)
  show thesis
  proof (cases "store_id xa = sid")
    case True
    with x have "x = xa\<lparr>store_averageRating :=
                     Some (case avgRating (filter (\<lambda>r. rating_storeId r = sid) (ratings d))
                           of Some a \<Rightarrow> toFixed2 (parseFloat a) | None \<Rightarrow> ''0.00''),
                   store_totalRatings :=
                     Some (int (length (filter (\<lambda>r. rating_storeId r = sid) (ratings d))))\<rparr>"
      by (simp only: if_P)
    with xa True show thesis by (rule rated)
  next
    case False
    with x have "x = xa" by (simp only: if_False)
    with xa False show thesis by (simp add: other)
  qed
qed

lemma recompute_materializes:
  "list_all (materialized_row (updateStoreRating sid d))
     (filter (\<lambda>st. store_id st = sid) (stores (updateStoreRating sid d)))"
proof -
  have "materialized_row d x"
    if x: "x \<in> set (stores (updateStoreRating sid d))" and sid: "store_id x = sid" for x
    using x
  proof (cases rule: stores_updateStoreRating_cases)
    case other
    with sid show ?thesis by simp
  next
    case (rated xa)
    then show ?thesis
      using recomputed_row [of xa sid d] by simp
  qed
  then show ?thesis
    by (simp add: list_all_iff)
qed

lemma materialized_row_cong:
  "storeRatingValues d2 (store_id st) = storeRatingValues d (store_id st) \<Longrightarrow>
   materialized_row d2 st = materialized_row d st"
  by (simp add: materialized_row_def)

lemma materialized_step:
  assumes m: "materialized d" and st: "stores d2 = stores d"
    and other: "\<And>k. k \<noteq> sid \<Longrightarrow> storeRatingValues d2 k = storeRatingValues d k"
  shows "materialized (updateStoreRating sid d2)"
proof -
  have "materialized_row d2 x" if x: "x \<in> set (stores (updateStoreRating sid d2))" for x
    using x
  proof (cases rule: stores_updateStoreRating_cases)
    case other
    then have "materialized_row d x"
      using m st by (simp add: materialized_def list_all_iff)
    then show ?thesis
      using assms(3) [OF other(2)] materialized_row_cong [of d2 x d] by blast
  next
    case (rated xa)
    then show ?thesis
      using recomputed_row [of xa sid d2] by simp
  qed
  then show ?thesis
    by (simp add: materialized_def list_all_iff)
qed

lemma values_after_insert:
  "k \<noteq> rating_storeId row \<Longrightarrow>
   storeRatingValues (d\<lparr>ratings := ratings d @ [row], ratings_id_seq := n\<rparr>) k = storeRatingValues d k"
  by (simp add: storeRatingValues_def)

lemma values_after_overwrite:
  "k \<noteq> sid \<Longrightarrow>
   storeRatingValues
     (d\<lparr>ratings := map (\<lambda>x. if rating_userId x = uid \<and> rating_storeId x = sid
                            then overwrite rt rv x else x) (ratings d)\<rparr>) k
     = storeRatingValues d k"
proof -
  assume k: "k \<noteq> sid"
  have "filter (\<lambda>r. rating_storeId r = k)
          (map (\<lambda>x. if rating_userId x = uid \<and> rating_storeId x = sid
                     then overwrite rt rv x else x) xs)
        = filter (\<lambda>r. rating_storeId r = k) xs" for xs
    using k by (induction xs) (auto simp: overwrite_def)
  then show ?thesis
    by (simp add: storeRatingValues_def)
qed

lemma post_ratings_materialized:
  assumes m: "materialized d" and run: "post_ratings now b (s, d) = (r, s', d')"
    and ok: "status r = 200"
  shows "materialized d'"
  using run ok
proof (cases rule: post_ratings_200)
  case (inserted uid sid rt)
  show ?thesis
    unfolding inserted(7)
    by (rule materialized_step [OF m]) (simp_all add: values_after_insert newRating_def)
next
  case (overwritten uid sid rt)
  show ?thesis
    unfolding overwritten(7)
    by (rule materialized_step [OF m]) (simp_all add: values_after_overwrite)
qed

lemma of_char_digit: "of_char (digit n) = (48 + n mod 10 :: nat)"
  by simp

lemma isDigit_digit: "isDigit (digit n)"
  unfolding isDigit_def less_eq_char_def of_char_digit by simp

lemma digits_not_Nil: "digits n \<noteq> []"
  by (subst digits.simps) simp

lemma digits_all: "list_all isDigit (digits n)"
  by (induction n rule: digits.induct) (subst digits.simps, simp add: isDigit_digit del: digit.simps)

lemma digits_hd: "hd (digits n) \<noteq> CHR ''-''"
proof -
  have "isDigit (hd (digits n))"
    using digits_all [of n] digits_not_Nil [of n] by (cases "digits n") simp_all
  then show ?thesis
    by (auto simp: isDigit_def less_eq_char_def)
qed

lemma twoDecimals_toFixed2: "twoDecimals (toFixed2 x)"
proof -
  define n where "n = nat \<lfloor>\<bar>x\<bar> * 100 + 1 / 2\<rfloor>"
  have u: "unsignedPart (toFixed2 x)
             = digits (n div 100) @ ''.'' @ [digit (n mod 100 div 10), digit (n mod 10)]"
  proof (cases "x < 0")
    case True
    then show ?thesis
      by (simp add: toFixed2_def unsignedPart_def Let_def n_def del: digit.simps)
  next
    case False
    then show ?thesis
      using digits_hd [of "n div 100"] digits_not_Nil [of "n div 100"]
      by (cases "digits (n div 100)")
         (simp_all add: toFixed2_def unsignedPart_def Let_def n_def del: digit.simps)
  qed
  show ?thesis
    unfolding twoDecimals_def u
    using digits_all [of "n div 100"] digits_not_Nil [of "n div 100"]
    by (simp add: isDigit_digit del: digit.simps)
qed

text \<open>
  Claim C1. For every store, after every successful rating create or update the store
  row's \<open>averageRating\<close> is the mean of all rating values of that store written with exactly
  two decimals and its \<open>totalRatings\<close> is their count: a materialized database stays
  materialized. The recompute leaves the rows of its store materialized whatever they held
  before, and over no ratings it writes \<open>"0.00"\<close> and \<open>0\<close>, never null. The written text
  always has exactly two decimals.
\<close>

theorem aggregate_materialized:
  "(materialized d \<and> post_ratings now b (s, d) = (r, s', d') \<and> status r = 200
      \<longrightarrow> materialized d')
   \<and> list_all (materialized_row (updateStoreRating sid d0))
       (filter (\<lambda>st. store_id st = sid) (stores (updateStoreRating sid d0)))
   \<and> (storeRatingValues d0 sid = []
      \<longrightarrow> list_all (\<lambda>st. store_averageRating st = Some ''0.00'' \<and> store_totalRatings st = Some 0)
            (filter (\<lambda>st. store_id st = sid) (stores (updateStoreRating sid d0))))
   \<and> twoDecimals (toFixed2 x)"
proof -
  have zero: "list_all (\<lambda>st. store_averageRating st = Some ''0.00'' \<and> store_totalRatings st = Some 0)
            (filter (\<lambda>st. store_id st = sid) (stores (updateStoreRating sid d0)))"
    if "storeRatingValues d0 sid = []"
    using recompute_materializes [of sid d0] that
    by (auto simp: list_all_iff materialized_row_def)
  show ?thesis
    using post_ratings_materialized recompute_materializes zero twoDecimals_toFixed2 by blast
qed


text \<open>
  Witness for C1: store 1 has the ratings 4 and 2 and the aggregate \<open>"3.00"\<close>, 2; user 2
  changes the rating to 5, and the aggregate becomes \<open>"3.50"\<close>, 2. Store 2 has no ratings.
\<close>

theorem aggregate_materialized_witness:
  "materialized ratedDb
   \<and> map store_averageRating (stores ratedDb) = [Some ''3.00'', Some ''0.00'']
   \<and> status (fst (post_ratings 3 (JObj [(''storeId'', JNum 1), (''rating'', JNum 5)])
                     (loggedIn 2 ''user'', ratedDb))) = 200
   \<and> materialized (snd (snd (post_ratings 3 (JObj [(''storeId'', JNum 1), (''rating'', JNum 5)])
                                (loggedIn 2 ''user'', ratedDb))))
   \<and> map store_averageRating
         (stores (snd (snd (post_ratings 3 (JObj [(''storeId'', JNum 1), (''rating'', JNum 5)])
                              (loggedIn 2 ''user'', ratedDb))))) = [Some ''3.50'', Some ''0.00'']
   \<and> map store_totalRatings
         (stores (snd (snd (post_ratings 3 (JObj [(''storeId'', JNum 1), (''rating'', JNum 5)])
                              (loggedIn 2 ''user'', ratedDb))))) = [Some 2, Some 0]
   \<and> storeRatingValues ratedDb 2 = []
   \<and> map store_averageRating (stores (updateStoreRating 2 ratedDb))
       = [Some ''3.00'', Some ''0.00'']
   \<and> twoDecimals (toFixed2 (7 / 2))"
proof -
  have before: "materialized ratedDb"
    by code_simp
  have shown: "map store_averageRating (stores ratedDb) = [Some ''3.00'', Some ''0.00'']"
    by code_simp
  have accepted:
    "status (fst (post_ratings 3 (JObj [(''storeId'', JNum 1), (''rating'', JNum 5)])
                     (loggedIn 2 ''user'', ratedDb))) = 200"
    by code_simp
  have average:
    "map store_averageRating
         (stores (snd (snd (post_ratings 3 (JObj [(''storeId'', JNum 1), (''rating'', JNum 5)])
                              (loggedIn 2 ''user'', ratedDb))))) = [Some ''3.50'', Some ''0.00'']"
    by code_simp
  have total:
    "map store_totalRatings
         (stores (snd (snd (post_ratings 3 (JObj [(''storeId'', JNum 1), (''rating'', JNum 5)])
                              (loggedIn 2 ''user'', ratedDb))))) = [Some 2, Some 0]"
    by code_simp
  have none: "storeRatingValues ratedDb 2 = []"
    by code_simp
  have zero: "map store_averageRating (stores (updateStoreRating 2 ratedDb))
       = [Some ''3.00'', Some ''0.00'']"
    by code_simp
  show ?thesis
    using before shown accepted average total none zero
      aggregate_materialized
        [where d = ratedDb and now = 3
           and b = "JObj [(''storeId'', JNum 1), (''rating'', JNum 5)]"
           and s = "loggedIn 2 ''user''"
           and r = "fst (post_ratings 3 (JObj [(''storeId'', JNum 1), (''rating'', JNum 5)])
                           (loggedIn 2 ''user'', ratedDb))"
           and s' = "fst (snd (post_ratings 3 (JObj [(''storeId'', JNum 1), (''rating'', JNum 5)])
                           (loggedIn 2 ''user'', ratedDb)))"
           and d' = "snd (snd (post_ratings 3 (JObj [(''storeId'', JNum 1), (''rating'', JNum 5)])
                           (loggedIn 2 ''user'', ratedDb)))"
           and x = "7 / 2"]
    by simp
qed


subsection \<open>One rating per user and store\<close>

lemma distinct_filter_le1:
  "distinct (map f xs) \<Longrightarrow> length (filter (\<lambda>x. f x = k) xs) \<le> 1"
proof (induction xs)
  case Nil
  then show ?case by simp
next
  case (Cons a xs)
  show ?case
  proof (cases "f a = k")
    case True
    with Cons.prems have "k \<notin> f ` set xs" by auto
    then have "filter (\<lambda>x. f x = k) xs = []"
      by (auto simp: filter_empty_conv)
    with True show ?thesis by simp
  next
    case False
    with Cons show ?thesis by simp
  qed
qed

lemma rowsOf_key:
  "rowsOf u sid d = filter (\<lambda>r. (rating_userId r, rating_storeId r) = (u, sid)) (ratings d)"
  by (simp add: rowsOf_def)

lemma rowsOf_le1: "userStoreUnique d \<Longrightarrow> length (rowsOf u sid d) \<le> 1"
  unfolding rowsOf_key userStoreUnique_def by (rule distinct_filter_le1)

lemma rowsOf_updateStoreRating [simp]: "rowsOf u k (updateStoreRating sid d) = rowsOf u k d"
  by (simp add: rowsOf_def)

lemma userStoreUnique_updateStoreRating [simp]:
  "userStoreUnique (updateStoreRating sid d) = userStoreUnique d"
  by (simp add: userStoreUnique_def)

lemma keys_overwrite:
  "map (\<lambda>r. (rating_userId r, rating_storeId r))
     (map (\<lambda>x. if P x then overwrite rt rv x else x) xs)
   = map (\<lambda>r. (rating_userId r, rating_storeId r)) xs"
  by (induction xs) (simp_all add: overwrite_def)

lemma ids_overwrite:
  "map rating_id (map (\<lambda>x. if P x then overwrite rt rv x else x) xs) = map rating_id xs"
  by (induction xs) (simp_all add: overwrite_def)

lemma filter_overwrite:
  "filter (\<lambda>r. rating_userId r = u \<and> rating_storeId r = k)
     (map (\<lambda>x. if rating_userId x = uid \<and> rating_storeId x = sid then overwrite rt rv x else x) xs)
   = map (\<lambda>x. if rating_userId x = uid \<and> rating_storeId x = sid then overwrite rt rv x else x)
       (filter (\<lambda>r. rating_userId r = u \<and> rating_storeId r = k) xs)"
  by (induction xs) (simp_all add: overwrite_def)

lemma ratings_after_insert:
  "ratings (updateStoreRating sid (d\<lparr>ratings := rs, ratings_id_seq := n\<rparr>)) = rs"
  by simp

lemma ratings_after_overwrite:
  "ratings (updateStoreRating sid (d\<lparr>ratings := rs\<rparr>)) = rs"
  by simp

lemma post_ratings_unique:
  assumes u: "userStoreUnique d" and run: "post_ratings now b (s, d) = (r, s', d')"
  shows "userStoreUnique d'"
proof (cases "status r = 200")
  case False
  with post_ratings_fail [OF run] u show ?thesis by simp
next
  case True
  from run True show ?thesis
  proof (cases rule: post_ratings_200)
    case (inserted uid sid rt)
    from inserted(5) have "(uid, sid) \<notin> set (map (\<lambda>r. (rating_userId r, rating_storeId r)) (ratings d))"
      by (auto simp: rowsOf_def filter_empty_conv)
    with u show ?thesis
      unfolding inserted(7) userStoreUnique_def ratings_after_insert
      by (simp add: newRating_def)
  next
    case (overwritten uid sid rt)
    show ?thesis
      unfolding overwritten(7) userStoreUnique_def ratings_after_overwrite keys_overwrite
      using u by (simp add: userStoreUnique_def)
  qed
qed

lemma post_ratings_rows_stay:
  assumes ne: "rowsOf u k d \<noteq> []" and run: "post_ratings now b (s, d) = (r, s', d')"
  shows "rowsOf u k d' \<noteq> []"
proof (cases "status r = 200")
  case False
  with post_ratings_fail [OF run] ne show ?thesis by simp
next
  case True
  from run True show ?thesis
  proof (cases rule: post_ratings_200)
    case (inserted uid sid rt)
    show ?thesis
      unfolding inserted(7) rowsOf_def ratings_after_insert
      using ne by (simp add: rowsOf_def)
  next
    case (overwritten uid sid rt)
    show ?thesis
      unfolding overwritten(7) rowsOf_def ratings_after_overwrite filter_overwrite
      using ne by (simp add: rowsOf_def)
  qed
qed

lemma submit_all_unique: "userStoreUnique d \<Longrightarrow> userStoreUnique (submit_all subs d)"
proof (induction subs arbitrary: d)
  case Nil
  then show ?case by simp
next
  case (Cons x subs)
  obtain now s b where x: "x = (now, s, b)" by (cases x)
  obtain r s' d' where run: "post_ratings now b (s, d) = (r, s', d')"
    by (cases "post_ratings now b (s, d)")
  have "userStoreUnique d'"
    using Cons.prems run by (rule post_ratings_unique)
  then show ?case
    using Cons.IH x run by simp
qed

lemma submit_all_rows_stay: "rowsOf u k d \<noteq> [] \<Longrightarrow> rowsOf u k (submit_all subs d) \<noteq> []"
proof (induction subs arbitrary: d)
  case Nil
  then show ?case by simp
next
  case (Cons x subs)
  obtain now s b where x: "x = (now, s, b)" by (cases x)
  obtain r s' d' where run: "post_ratings now b (s, d) = (r, s', d')"
    by (cases "post_ratings now b (s, d)")
  have "rowsOf u k d' \<noteq> []"
    using Cons.prems run by (rule post_ratings_rows_stay)
  then show ?case
    using Cons.IH x run by simp
qed

lemma one_row_stays:
  assumes "userStoreUnique d" and "rowsOf u k d \<noteq> []"
  shows "length (rowsOf u k (submit_all subs d)) = 1"
proof -
  have "userStoreUnique (submit_all subs d)"
    using assms(1) by (rule submit_all_unique)
  then have "length (rowsOf u k (submit_all subs d)) \<le> 1"
    by (rule rowsOf_le1)
  moreover have "rowsOf u k (submit_all subs d) \<noteq> []"
    using assms(2) by (rule submit_all_rows_stay)
  ultimately show ?thesis
    by (cases "rowsOf u k (submit_all subs d)") simp_all
qed

lemma submitters_Cons:
  "submitters ((now, s, b) # subs) k
     = (if map_of (spread b) ''storeId'' = Some (JNum (of_int k))
        then (case userId s of None \<Rightarrow> {} | Some u \<Rightarrow> {u}) else {})
       \<union> submitters subs k"
  by (simp add: submitters_def map_filter_simps split: option.splits)

lemma submitters_Nil [simp]: "submitters [] k = {}"
  by (simp add: submitters_def map_filter_simps)

lemma finite_submitters: "finite (submitters subs k)"
  by (simp add: submitters_def)

lemma post_ratings_owned:
  assumes owned: "\<forall>row\<in>set (ratings d). rating_userId row \<in> U (rating_storeId row)"
    and run: "post_ratings now b (s, d) = (r, s', d')"
  shows "\<forall>row\<in>set (ratings d').
           rating_userId row \<in> U (rating_storeId row) \<union> submitters [(now, s, b)] (rating_storeId row)"
proof (cases "status r = 200")
  case False
  with post_ratings_fail [OF run] owned show ?thesis by simp
next
  case True
  from run True show ?thesis
  proof (cases rule: post_ratings_200)
    case (inserted uid sid rt)
    have "uid \<in> submitters [(now, s, b)] sid"
      using inserted(1,3) by (simp add: submitters_Cons)
    then show ?thesis
      unfolding inserted(7) ratings_after_insert
      using owned by (auto simp: newRating_def)
  next
    case (overwritten uid sid rt)
    show ?thesis
      unfolding overwritten(7) ratings_after_overwrite
      using owned by (auto simp: overwrite_def)
  qed
qed

lemma submit_all_owned:
  assumes "\<forall>row\<in>set (ratings d). rating_userId row \<in> U (rating_storeId row)"
  shows "\<forall>row\<in>set (ratings (submit_all subs d)).
           rating_userId row \<in> U (rating_storeId row) \<union> submitters subs (rating_storeId row)"
  using assms
proof (induction subs arbitrary: d U)
  case Nil
  then show ?case by simp
next
  case (Cons x subs)
  obtain now s b where x: "x = (now, s, b)" by (cases x)
  obtain r s' d' where run: "post_ratings now b (s, d) = (r, s', d')"
    by (cases "post_ratings now b (s, d)")
  let ?U = "\<lambda>k. U k \<union> submitters [(now, s, b)] k"
  have "\<forall>row\<in>set (ratings d'). rating_userId row \<in> ?U (rating_storeId row)"
    using Cons.prems run by (rule post_ratings_owned)
  then have "\<forall>row\<in>set (ratings (submit_all subs d')).
           rating_userId row \<in> ?U (rating_storeId row) \<union> submitters subs (rating_storeId row)"
    by (rule Cons.IH)
  moreover have "?U k \<union> submitters subs k = U k \<union> submitters (x # subs) k" for k
    unfolding x by (simp add: submitters_Cons Un_assoc)
  ultimately show ?case
    using x run by simp
qed

lemma submit_all_materialized: "materialized d \<Longrightarrow> materialized (submit_all subs d)"
proof (induction subs arbitrary: d)
  case Nil
  then show ?case by simp
next
  case (Cons x subs)
  obtain now s b where x: "x = (now, s, b)" by (cases x)
  obtain r s' d' where run: "post_ratings now b (s, d) = (r, s', d')"
    by (cases "post_ratings now b (s, d)")
  have "materialized d'"
  proof (cases "status r = 200")
    case True
    with Cons.prems run show ?thesis by (rule post_ratings_materialized)
  next
    case False
    with post_ratings_fail [OF run] Cons.prems show ?thesis by simp
  qed
  then show ?case
    using Cons.IH x run by simp
qed

lemma distinct_users_in_store:
  "distinct (map (\<lambda>r. (f r, g r)) xs) \<Longrightarrow> distinct (map f (filter (\<lambda>r. g r = k) xs))"
  by (induction xs) (auto simp: image_iff)

lemma total_le_submitters:
  assumes empty: "ratings d = []" and m: "materialized d"
  shows "list_all (\<lambda>st. \<exists>n. store_totalRatings st = Some n
                           \<and> n \<le> int (card (submitters subs (store_id st))))
           (stores (submit_all subs d))"
proof -
  let ?d = "submit_all subs d"
  have "userStoreUnique d"
    using empty by (simp add: userStoreUnique_def)
  then have uniq: "userStoreUnique ?d"
    by (rule submit_all_unique)
  have mat: "materialized ?d"
    using m by (rule submit_all_materialized)
  have "\<forall>row\<in>set (ratings d). rating_userId row \<in> (\<lambda>k. {}) (rating_storeId row)"
    using empty by simp
  then have "\<forall>row\<in>set (ratings ?d).
      rating_userId row \<in> (\<lambda>k. {}) (rating_storeId row) \<union> submitters subs (rating_storeId row)"
    by (rule submit_all_owned)
  then have owned: "\<forall>row\<in>set (ratings ?d). rating_userId row \<in> submitters subs (rating_storeId row)"
    by simp
  have "\<exists>n. store_totalRatings st = Some n \<and> n \<le> int (card (submitters subs (store_id st)))"
    if st: "st \<in> set (stores ?d)" for st
  proof -
    let ?rows = "filter (\<lambda>r. rating_storeId r = store_id st) (ratings ?d)"
    have total: "store_totalRatings st = Some (int (length ?rows))"
      using mat st by (simp add: materialized_def list_all_iff materialized_row_def storeRatingValues_def)
    have "distinct (map rating_userId ?rows)"
      using uniq unfolding userStoreUnique_def by (rule distinct_users_in_store)
    then have "length ?rows = card (set (map rating_userId ?rows))"
      using distinct_card [of "map rating_userId ?rows"] by (simp only: length_map)
    also have "\<dots> \<le> card (submitters subs (store_id st))"
      using owned by (intro card_mono finite_submitters) auto
    finally show ?thesis
      using total by simp
  qed
  then show ?thesis
    by (simp add: list_all_iff)
qed

lemma post_ratings_one_row:
  assumes u: "userStoreUnique d" and run: "post_ratings now b (s, d) = (r, s', d')"
    and ok: "status r = 200"
  shows "\<exists>uid sid rt. userId s = Some uid
           \<and> map_of (spread b) ''storeId'' = Some (JNum (of_int sid))
           \<and> map_of (spread b) ''rating'' = Some (JNum (of_int rt))
           \<and> (rowsOf uid sid d = []
                \<longrightarrow> ratings d' = ratings d @ [newRating now uid sid rt (reviewOf b) d])
           \<and> (rowsOf uid sid d \<noteq> []
                \<longrightarrow> map rating_id (ratings d') = map rating_id (ratings d)
                    \<and> rowsOf uid sid d' = [overwrite rt (reviewOf b) (hd (rowsOf uid sid d))])
           \<and> length (rowsOf uid sid d') = 1"
  using run ok
proof (cases rule: post_ratings_200)
  case (inserted uid sid rt)
  have table: "ratings d' = ratings d @ [newRating now uid sid rt (reviewOf b) d]"
    unfolding inserted(7) by simp
  have "rowsOf uid sid d' = rowsOf uid sid d @ [newRating now uid sid rt (reviewOf b) d]"
    unfolding rowsOf_def table by (simp add: newRating_def)
  then have "length (rowsOf uid sid d') = 1"
    using inserted(5) by simp
  then show ?thesis
    using inserted(1,3,4,5) table by blast
next
  case (overwritten uid sid rt)
  let ?g = "\<lambda>x. if rating_userId x = uid \<and> rating_storeId x = sid
                 then overwrite rt (reviewOf b) x else x"
  have table: "ratings d' = map ?g (ratings d)"
    unfolding overwritten(7) by simp
  have ids: "map rating_id (ratings d') = map rating_id (ratings d)"
    unfolding table by (rule ids_overwrite)
  have "length (rowsOf uid sid d) \<le> 1"
    using u by (rule rowsOf_le1)
  then obtain old where old: "rowsOf uid sid d = [old]"
    using overwritten(5) by (cases "rowsOf uid sid d") simp_all
  then have "old \<in> set (rowsOf uid sid d)"
    by simp
  then have hit: "rating_userId old = uid \<and> rating_storeId old = sid"
    by (simp add: rowsOf_def)
  have "rowsOf uid sid d' = map ?g (rowsOf uid sid d)"
    unfolding rowsOf_def table by (rule filter_overwrite)
  then have rows: "rowsOf uid sid d' = [overwrite rt (reviewOf b) (hd (rowsOf uid sid d))]"
    using old hit by simp
  then have "length (rowsOf uid sid d') = 1"
    by simp
  then show ?thesis
    using overwritten(1,3,4,5) ids rows by blast
qed

text \<open>
  Claim C2, as stated, fails in its parenthesis: a later submission that carries no review
  overwrites the rating and leaves the stored review. User 3 rated store 1 with 2 and the
  review \<open>ok\<close>, and submits 5 without a review: the one row holds 5 and still \<open>ok\<close>.
\<close>

theorem resubmission_keeps_review_counterexample:
  "map rating_review (rowsOf 3 1 ratedDb) = [Some ''ok'']
   \<and> reviewOf (JObj [(''storeId'', JNum 1), (''rating'', JNum 5)]) = None
   \<and> status (fst (post_ratings 3 (JObj [(''storeId'', JNum 1), (''rating'', JNum 5)])
                     (loggedIn 3 ''user'', ratedDb))) = 200
   \<and> map rating_rating
        (rowsOf 3 1 (snd (snd (post_ratings 3 (JObj [(''storeId'', JNum 1), (''rating'', JNum 5)])
                                 (loggedIn 3 ''user'', ratedDb))))) = [5]
   \<and> map rating_review
        (rowsOf 3 1 (snd (snd (post_ratings 3 (JObj [(''storeId'', JNum 1), (''rating'', JNum 5)])
                                 (loggedIn 3 ''user'', ratedDb))))) = [Some ''ok'']"
  by code_simp

text \<open>
  Claim C2, amended. No run of \<open>POST /api/ratings\<close> requests leaves two rows for one user
  and one store, and a row that exists stays the only one. A successful submission by
  user \<open>u\<close> for store \<open>s\<close> leaves exactly one row \<open>(u, s)\<close>: the first one appends a row; a later
  one keeps every row's id and overwrites, in that same row, the rating, and the review
  when the submission carries one (a submission without a review leaves the stored
  review). Consequently, from a database without ratings, \<open>totalRatings\<close> of a store never
  exceeds the number of distinct users who submitted a rating for it.
\<close>

theorem rating_submissions_one_row:
  "(userStoreUnique d \<longrightarrow> userStoreUnique (submit_all subs d))
   \<and> (userStoreUnique d \<and> rowsOf u k d \<noteq> []
      \<longrightarrow> length (rowsOf u k (submit_all subs d)) = 1)
   \<and> (userStoreUnique d \<and> post_ratings now b (s, d) = (r, s', d') \<and> status r = 200
      \<longrightarrow> (\<exists>uid sid rt. userId s = Some uid
             \<and> map_of (spread b) ''storeId'' = Some (JNum (of_int sid))
             \<and> map_of (spread b) ''rating'' = Some (JNum (of_int rt))
             \<and> (rowsOf uid sid d = []
                  \<longrightarrow> ratings d' = ratings d @ [newRating now uid sid rt (reviewOf b) d])
             \<and> (rowsOf uid sid d \<noteq> []
                  \<longrightarrow> map rating_id (ratings d') = map rating_id (ratings d)
                      \<and> rowsOf uid sid d'
                          = [overwrite rt (reviewOf b) (hd (rowsOf uid sid d))])
             \<and> length (rowsOf uid sid d') = 1))
   \<and> (ratings d = [] \<and> materialized d
      \<longrightarrow> list_all (\<lambda>st. \<exists>n. store_totalRatings st = Some n
                             \<and> n \<le> int (card (submitters subs (store_id st))))
            (stores (submit_all subs d)))"
proof (intro conjI impI)
  assume "userStoreUnique d"
  then show "userStoreUnique (submit_all subs d)"
    by (rule submit_all_unique)
next
  assume "userStoreUnique d \<and> rowsOf u k d \<noteq> []"
  then show "length (rowsOf u k (submit_all subs d)) = 1"
    using one_row_stays by blast
next
  assume "userStoreUnique d \<and> post_ratings now b (s, d) = (r, s', d') \<and> status r = 200"
  then have "userStoreUnique d" "post_ratings now b (s, d) = (r, s', d')" "status r = 200"
    by simp_all
  then show "\<exists>uid sid rt. userId s = Some uid
             \<and> map_of (spread b) ''storeId'' = Some (JNum (of_int sid))
             \<and> map_of (spread b) ''rating'' = Some (JNum (of_int rt))
             \<and> (rowsOf uid sid d = []
                  \<longrightarrow> ratings d' = ratings d @ [newRating now uid sid rt (reviewOf b) d])
             \<and> (rowsOf uid sid d \<noteq> []
                  \<longrightarrow> map rating_id (ratings d') = map rating_id (ratings d)
                      \<and> rowsOf uid sid d'
                          = [overwrite rt (reviewOf b) (hd (rowsOf uid sid d))])
             \<and> length (rowsOf uid sid d') = 1"
    by (rule post_ratings_one_row)
next
  assume "ratings d = [] \<and> materialized d"
  then have "ratings d = []" "materialized d"
    by simp_all
  then show "list_all (\<lambda>st. \<exists>n. store_totalRatings st = Some n
                             \<and> n \<le> int (card (submitters subs (store_id st))))
            (stores (submit_all subs d))"
    by (rule total_le_submitters)
qed

text \<open>
  Witness for C2: users 2 and 3 rate store 1 and user 2 rates it again; the table stays
  unique, store 1 counts two ratings for two submitters, and the resubmission of user 2
  on the rated database leaves one row.
\<close>

theorem rating_submissions_one_row_witness:
  "userStoreUnique exampleDb \<and> ratings exampleDb = [] \<and> materialized exampleDb
   \<and> userStoreUnique (submit_all
         [(1, loggedIn 2 ''user'', JObj [(''storeId'', JNum 1), (''rating'', JNum 4)]),
          (2, loggedIn 3 ''user'',
           JObj [(''storeId'', JNum 1), (''rating'', JNum 2), (''review'', JStr ''ok'')]),
          (3, loggedIn 2 ''user'', JObj [(''storeId'', JNum 1), (''rating'', JNum 5)])] exampleDb)
   \<and> map store_totalRatings (stores (submit_all
         [(1, loggedIn 2 ''user'', JObj [(''storeId'', JNum 1), (''rating'', JNum 4)]),
          (2, loggedIn 3 ''user'',
           JObj [(''storeId'', JNum 1), (''rating'', JNum 2), (''review'', JStr ''ok'')]),
          (3, loggedIn 2 ''user'', JObj [(''storeId'', JNum 1), (''rating'', JNum 5)])] exampleDb)) = [Some 2, Some 0]
   \<and> card (submitters
         [(1, loggedIn 2 ''user'', JObj [(''storeId'', JNum 1), (''rating'', JNum 4)]),
          (2, loggedIn 3 ''user'',
           JObj [(''storeId'', JNum 1), (''rating'', JNum 2), (''review'', JStr ''ok'')]),
          (3, loggedIn 2 ''user'', JObj [(''storeId'', JNum 1), (''rating'', JNum 5)])] 1) = 2
   \<and> userStoreUnique ratedDb \<and> rowsOf 2 1 ratedDb \<noteq> []
   \<and> length (rowsOf 2 1 (submit_all
         [(3, loggedIn 2 ''user'', JObj [(''storeId'', JNum 1), (''rating'', JNum 5)])] ratedDb)) = 1
   \<and> status (fst (post_ratings 3 (JObj [(''storeId'', JNum 1), (''rating'', JNum 5)])
                     (loggedIn 2 ''user'', ratedDb))) = 200
   \<and> map rating_rating
        (rowsOf 2 1 (snd (snd (post_ratings 3 (JObj [(''storeId'', JNum 1), (''rating'', JNum 5)])
                                 (loggedIn 2 ''user'', ratedDb))))) = [5]"
proof -
  have start: "userStoreUnique exampleDb" "ratings exampleDb = []" "materialized exampleDb"
    by code_simp+
  have totals: "map store_totalRatings (stores (submit_all
         [(1, loggedIn 2 ''user'', JObj [(''storeId'', JNum 1), (''rating'', JNum 4)]),
          (2, loggedIn 3 ''user'',
           JObj [(''storeId'', JNum 1), (''rating'', JNum 2), (''review'', JStr ''ok'')]),
          (3, loggedIn 2 ''user'', JObj [(''storeId'', JNum 1), (''rating'', JNum 5)])] exampleDb)) = [Some 2, Some 0]"
    by code_simp
  have users: "card (submitters
         [(1, loggedIn 2 ''user'', JObj [(''storeId'', JNum 1), (''rating'', JNum 4)]),
          (2, loggedIn 3 ''user'',
           JObj [(''storeId'', JNum 1), (''rating'', JNum 2), (''review'', JStr ''ok'')]),
          (3, loggedIn 2 ''user'', JObj [(''storeId'', JNum 1), (''rating'', JNum 5)])] 1) = 2"
    by code_simp
  have rated: "userStoreUnique ratedDb" "rowsOf 2 1 ratedDb \<noteq> []"
    by code_simp+
  have accepted: "status (fst (post_ratings 3 (JObj [(''storeId'', JNum 1), (''rating'', JNum 5)])
                     (loggedIn 2 ''user'', ratedDb))) = 200"
    by code_simp
  have row: "map rating_rating
        (rowsOf 2 1 (snd (snd (post_ratings 3 (JObj [(''storeId'', JNum 1), (''rating'', JNum 5)])
                                 (loggedIn 2 ''user'', ratedDb))))) = [5]"
    by code_simp
  show ?thesis
    using start totals users rated accepted row
      rating_submissions_one_row
        [where d = exampleDb and subs = "[(1, loggedIn 2 ''user'', JObj [(''storeId'', JNum 1), (''rating'', JNum 4)]),
          (2, loggedIn 3 ''user'',
           JObj [(''storeId'', JNum 1), (''rating'', JNum 2), (''review'', JStr ''ok'')]),
          (3, loggedIn 2 ''user'', JObj [(''storeId'', JNum 1), (''rating'', JNum 5)])]"]
      rating_submissions_one_row
        [where d = ratedDb and u = 2 and k = 1 and subs = "[(3, loggedIn 2 ''user'', JObj [(''storeId'', JNum 1), (''rating'', JNum 5)])]"]
    by simp
qed

end
